theory Spec2Isabelle
  imports Complex_Main
begin

section \<open>Strings as the script uses them\<close>

text \<open>
  A Python \<open>str\<close> is modelled as a \<open>string\<close> whose characters are code points below 256.
  The result of a case conversion can leave this range, so it is a list of code points.
\<close>

type_synonym codepoint = nat

definition codepoints :: "string \<Rightarrow> codepoint list" where
  "codepoints s = map of_char s"

text \<open>
  The case properties of the code points below 256, as the Unicode tables of Python
  have them. Cased are the ASCII letters, the Latin-1 letters (192 to 255 without the
  signs 215 and 247), the ordinal indicators 170 and 186 and the micro sign 181.
\<close>

definition iscased :: "char \<Rightarrow> bool" where
  "iscased c = (let n = (of_char c :: nat) in
                  (65 \<le> n \<and> n \<le> 90) \<or> (97 \<le> n \<and> n \<le> 122) \<or>
                  n = 170 \<or> n = 181 \<or> n = 186 \<or>
                  (192 \<le> n \<and> n \<le> 214) \<or> (216 \<le> n \<and> n \<le> 246) \<or>
                  (248 \<le> n \<and> n \<le> 255))"

text \<open>Lower case: the upper-case letters move up by 32, everything else stays.\<close>

definition to_lower :: "char \<Rightarrow> codepoint" where
  "to_lower c = (let n = (of_char c :: nat) in
                   if (65 \<le> n \<and> n \<le> 90) \<or> (192 \<le> n \<and> n \<le> 214) \<or> (216 \<le> n \<and> n \<le> 222)
                   then n + 32 else n)"

text \<open>
  Title case: the lower-case letters move down by 32, except that the sharp s (223)
  becomes \<open>Ss\<close>, the y with diaeresis (255) becomes code point 376 and the micro sign
  (181) becomes the Greek capital mu, code point 924; everything else stays.
\<close>

definition to_title :: "char \<Rightarrow> codepoint list" where
  "to_title c = (let n = (of_char c :: nat) in
                   if (97 \<le> n \<and> n \<le> 122) \<or> (224 \<le> n \<and> n \<le> 246) \<or> (248 \<le> n \<and> n \<le> 254)
                   then [n - 32]
                   else if n = 255 then [376]
                   else if n = 181 then [924]
                   else if n = 223 then [83, 115]
                   else [n])"

text \<open>
  \<open>str.strip()\<close> without argument removes the characters for which \<open>str.isspace\<close> holds:
  below 256 these are the code points 9 to 13, 28 to 32, 133 and 160.
\<close>

definition isspace :: "char \<Rightarrow> bool" where
  "isspace c = (let n = (of_char c :: nat) in
                  (9 \<le> n \<and> n \<le> 13) \<or> (28 \<le> n \<and> n \<le> 32) \<or> n = 133 \<or> n = 160)"

text \<open>\<open>s.strip(chars)\<close>: drop from both ends every character that satisfies the test.\<close>

definition strip_where :: "(char \<Rightarrow> bool) \<Rightarrow> string \<Rightarrow> string" where
  "strip_where P s = rev (dropWhile P (rev (dropWhile P s)))"

definition str_strip :: "string \<Rightarrow> string" where
  "str_strip s = strip_where isspace s"

definition str_strip_chars :: "string \<Rightarrow> string \<Rightarrow> string" where
  "str_strip_chars chars s = strip_where (\<lambda>c. c \<in> set chars) s"

text \<open>\<open>s.replace(old, new)\<close> for single characters, as in \<open>replace('_', ' ')\<close>.\<close>

definition str_replace :: "char \<Rightarrow> char \<Rightarrow> string \<Rightarrow> string" where
  "str_replace old new s = map (\<lambda>c. if c = old then new else c) s"

text \<open>
  \<open>str.title()\<close>: one pass over the characters that remembers whether the previous
  character was cased; a character after a cased one is lower-cased, any other is
  title-cased.
\<close>

fun title_from :: "bool \<Rightarrow> string \<Rightarrow> codepoint list" where
  "title_from previous_is_cased [] = []"
| "title_from previous_is_cased (c # cs) =
     (if previous_is_cased then [to_lower c] else to_title c) @ title_from (iscased c) cs"

definition str_title :: "string \<Rightarrow> codepoint list" where
  "str_title s = title_from False s"

text \<open>\<open>s.rfind(ch)\<close>: the index of the last occurrence of the character, or -1.\<close>

fun rfind_from :: "int \<Rightarrow> char \<Rightarrow> string \<Rightarrow> int" where
  "rfind_from i ch [] = -1"
| "rfind_from i ch (c # cs) =
     (let r = rfind_from (i + 1) ch cs in
      if r \<noteq> -1 then r else if c = ch then i else -1)"

definition rfind :: "string \<Rightarrow> char \<Rightarrow> int" where
  "rfind s ch = rfind_from 0 ch s"

section \<open>\<open>os.path\<close>, in its POSIX flavour\<close>

text \<open>
  The script calls \<open>os.path\<close>, whose functions depend on the platform; the functions
  of \<open>posixpath\<close> are modelled.
  \<open>posixpath.basename\<close>: everything after the last slash.
\<close>

definition basename :: "string \<Rightarrow> string" where
  "basename p = (let i = rfind p (CHR ''/'') + 1 in drop (nat i) p)"

text \<open>
  \<open>posixpath.splitext\<close> (\<open>genericpath._splitext\<close>): split at the last dot when that dot
  comes after the last slash and some character between the slash and the dot is not a
  dot; otherwise the extension is empty.
\<close>

function skip_leading_dots :: "string \<Rightarrow> int \<Rightarrow> int \<Rightarrow> bool" where
  "skip_leading_dots p filenameIndex dotIndex =
     (if filenameIndex < dotIndex then
        (if take 1 (drop (nat filenameIndex) p) \<noteq> ''.'' then True
         else skip_leading_dots p (filenameIndex + 1) dotIndex)
      else False)"
  by pat_completeness auto
termination
  by (relation "measure (\<lambda>(p, f, d). nat (d - f))") auto

definition splitext :: "string \<Rightarrow> string \<times> string" where
  "splitext p =
     (let sepIndex = rfind p (CHR ''/'');
          dotIndex = rfind p (CHR ''.'')
      in if dotIndex > sepIndex \<and> skip_leading_dots p (sepIndex + 1) dotIndex
         then (take (nat dotIndex) p, drop (nat dotIndex) p)
         else (p, []))"

text \<open>\<open>posixpath.join(a, b)\<close> with one further component.\<close>

definition join :: "string \<Rightarrow> string \<Rightarrow> string" where
  "join a b =
     (if take 1 b = ''/'' then b
      else if a = [] \<or> last a = CHR ''/'' then a @ b
      else a @ ''/'' @ b)"

section \<open>Geometry and coordinate reference systems\<close>

type_synonym point = "real \<times> real"

text \<open>
  A \<open>GeoDataFrame\<close>: the coordinates of each feature, and the EPSG code of the
  reference system the file declares (\<open>None\<close> when it declares none).
  Coordinates are real numbers; rounding of floating-point arithmetic is not modelled.
\<close>

record geodataframe =
  geometry :: "point list list"
  crs :: "nat option"

text \<open>
  Every way the run can stop early. \<open>CRSMismatch\<close>, \<open>NaiveGeometry\<close> and \<open>NanLimits\<close>
  are the \<open>ValueError\<close>s of \<open>set_crs\<close>, \<open>to_crs\<close> and \<open>set_xlim\<close>;
  \<open>SystemExit n\<close> is what \<open>exit(n)\<close> raises.
\<close>

datatype error =
    EOFError
  | ReadError
  | CRSMismatch
  | NaiveGeometry
  | NanLimits
  | TileError
  | OSError
  | SystemExit int

text \<open>
  \<open>GeoDataFrame.set_crs(epsg=..)\<close> with the default \<open>allow_override=False\<close>: a frame
  that already has a different reference system is refused, nothing is transformed.
  Two reference systems are equal when their EPSG codes are.
\<close>

definition set_crs :: "geodataframe \<Rightarrow> nat \<Rightarrow> error + geodataframe" where
  "set_crs gdf epsg =
     (if crs gdf \<noteq> None \<and> crs gdf \<noteq> Some epsg then Inl CRSMismatch
      else Inr (gdf\<lparr>crs := Some epsg\<rparr>))"

text \<open>
  \<open>GeoDataFrame.to_crs(epsg=..)\<close>: a frame without reference system is refused; otherwise
  every coordinate goes through the transformation from the frame's system
  to the requested one, which the transformation library supplies.
\<close>

definition to_crs ::
  "(nat \<Rightarrow> nat \<Rightarrow> point \<Rightarrow> point) \<Rightarrow> geodataframe \<Rightarrow> nat \<Rightarrow> error + geodataframe" where
  "to_crs transform gdf epsg =
     (case crs gdf of
        None \<Rightarrow> Inl NaiveGeometry
      | Some src \<Rightarrow>
          if src = epsg then Inr gdf
          else Inr (gdf\<lparr>geometry := map (map (transform src epsg)) (geometry gdf),
                        crs := Some epsg\<rparr>))"

text \<open>
  \<open>total_bounds\<close>: (minx, miny, maxx, maxy) over all coordinates. Without any coordinate
  the library returns NaN four times, here \<open>None\<close>.
\<close>

definition total_bounds :: "geodataframe \<Rightarrow> (real \<times> real \<times> real \<times> real) option" where
  "total_bounds gdf =
     (case concat (geometry gdf) of
        [] \<Rightarrow> None
      | p # ps \<Rightarrow>
          Some (fold min (map fst ps) (fst p), fold min (map snd ps) (snd p),
                fold max (map fst ps) (fst p), fold max (map snd ps) (snd p)))"

section \<open>\<open>numpy.linspace\<close>\<close>

text \<open>
  \<open>np.linspace(start, stop, num)\<close> with \<open>endpoint=True\<close>: the indices \<open>0..num-1\<close>
  scaled by the step and shifted by \<open>start\<close>; the last sample is then overwritten
  with \<open>stop\<close>.
\<close>

definition linspace :: "real \<Rightarrow> real \<Rightarrow> nat \<Rightarrow> real list" where
  "linspace start stop num =
     (let divisor = num - 1;
          delta = stop - start;
          y = map real [0..<num];
          y = (if divisor > 0 then
                 (let step = delta / real divisor in
                  if step = 0 then map (\<lambda>v. v / real divisor * delta) y
                  else map (\<lambda>v. v * step) y)
               else map (\<lambda>v. v * delta) y);
          y = map (\<lambda>v. v + start) y
      in if num > 1 then y[num - 1 := stop] else y)"

section \<open>The drawing surface\<close>

type_synonym image = string

record polygon_layer =
  layer_geometry :: "point list list"
  layer_alpha :: real
  layer_edgecolor :: string
  layer_facecolor :: string
  layer_linewidth :: real

record line2d =
  line_x :: "real list"
  line_y :: "real list"
  line_color :: string
  line_width :: real

record text_item =
  text_x :: real
  text_y :: real
  text_s :: string
  text_ha :: string
  text_va :: string

record annotation =
  ann_s :: string
  ann_xy :: point
  ann_xytext :: point

text \<open>
  The axes accumulate what the script draws. \<open>xlim\<close> and \<open>ylim\<close> hold the limits
  requested with \<open>set_xlim\<close> and \<open>set_ylim\<close>.
\<close>

record axes =
  layers :: "polygon_layer list"
  xlim :: "real \<times> real"
  ylim :: "real \<times> real"
  basemap :: "image option"
  xticks :: "real list"
  yticks :: "real list"
  xticklabels :: "string list"
  yticklabels :: "string list"
  grid :: bool
  legend :: "string list"
  lines :: "line2d list"
  texts :: "text_item list"
  annotations :: "annotation list"
  ax_title :: "codepoint list"
  xlabel :: string
  ylabel :: string

text \<open>\<open>plt.subplots(1, 1, ..)\<close>: empty axes with the default unit limits.\<close>

definition subplots :: axes where
  "subplots = \<lparr>layers = [], xlim = (0, 1), ylim = (0, 1), basemap = None,
               xticks = [], yticks = [], xticklabels = [], yticklabels = [],
               grid = False, legend = [], lines = [], texts = [], annotations = [],
               ax_title = [], xlabel = [], ylabel = []\<rparr>"

definition plot_line :: "real list \<Rightarrow> real list \<Rightarrow> string \<Rightarrow> real \<Rightarrow> axes \<Rightarrow> axes" where
  "plot_line xs ys color lw ax =
     ax\<lparr>lines := lines ax @ [\<lparr>line_x = xs, line_y = ys, line_color = color, line_width = lw\<rparr>]\<rparr>"

definition degree_sign :: char where
  "degree_sign = CHR 0xB0"

section \<open>The outside world\<close>

text \<open>
  What the script asks of its collaborators: the file system, the geometry reader,
  the coordinate transformation (by source and target EPSG code), the tile service
  (for the x and y limits of the axes), and the float formatting \<open>{:.2f}\<close>.
\<close>

record env =
  path_exists :: "string \<Rightarrow> bool"
  read_file :: "string \<Rightarrow> error + geodataframe"
  pyproj :: "nat \<Rightarrow> nat \<Rightarrow> point \<Rightarrow> point"
  fetch_tiles :: "real \<times> real \<Rightarrow> real \<times> real \<Rightarrow> error + image"
  makedirs :: "string \<Rightarrow> error + unit"
  savefig :: "string \<Rightarrow> error + unit"
  format_2f :: "real \<Rightarrow> string"

text \<open>The input and output a run attempts, in order.\<close>

datatype event =
    Print string
  | ReadFile string
  | FetchTiles "real \<times> real" "real \<times> real"
  | MakeDirs string
  | SaveFig string axes
  | Show

type_synonym 'a run = "event list \<times> (error + 'a)"

definition lift :: "error + 'a \<Rightarrow> 'a run" where
  "lift r = ([], r)"

definition io :: "event \<Rightarrow> error + 'a \<Rightarrow> 'a run" where
  "io ev r = ([ev], r)"

definition and_then :: "'a run \<Rightarrow> ('a \<Rightarrow> 'b run) \<Rightarrow> 'b run" where
  "and_then m f =
     (case m of
        (t, Inl e) \<Rightarrow> (t, Inl e)
      | (t, Inr a) \<Rightarrow> (case f a of (t', r) \<Rightarrow> (t @ t', r)))"

section \<open>\<open>create_base_map\<close>\<close>

text \<open>
  The function of the script, statement by statement. It returns nothing in the
  source; here a completed call returns the axes as drawn, and every call
  returns the events it got to. The limits that \<open>gdf_wm.plot\<close> chooses by itself are
  not recorded: the next statements replace them, or the call fails.
\<close>

definition create_base_map :: "env \<Rightarrow> string \<Rightarrow> string \<Rightarrow> axes run" where
  "create_base_map world shapefile_path output_dir =
     and_then (io (ReadFile shapefile_path) (read_file world shapefile_path)) (\<lambda>gdf.
     let shapefile_name = fst (splitext (basename shapefile_path));
         map_title = str_title (str_replace (CHR ''_'') (CHR '' '') shapefile_name)
     in
     and_then (lift (set_crs gdf 4326)) (\<lambda>gdf_4326.
     and_then (lift (to_crs (pyproj world) gdf_4326 3857)) (\<lambda>gdf_wm.
     let ax = subplots;
         ax = ax\<lparr>layers := layers ax @
                [\<lparr>layer_geometry = geometry gdf_wm, layer_alpha = 0.5,
                  layer_edgecolor = ''black'', layer_facecolor = ''saddlebrown'',
                  layer_linewidth = 3\<rparr>]\<rparr>
     in
     and_then (lift (case total_bounds gdf_wm of
                       None \<Rightarrow> Inl NanLimits | Some b \<Rightarrow> Inr b)) (\<lambda>(west, south, east, north).
     let x_range = east - west;
         y_range = north - south;
         x_padding = x_range * 0.2;
         y_padding = y_range * 0.2;
         ax = ax\<lparr>xlim := (west - x_padding, east + x_padding)\<rparr>;
         ax = ax\<lparr>ylim := (south - y_padding, north + y_padding)\<rparr>
     in
     and_then (io (FetchTiles (xlim ax) (ylim ax))
                  (fetch_tiles world (xlim ax) (ylim ax))) (\<lambda>tiles.
     let ax = ax\<lparr>basemap := Some tiles\<rparr>;
         transformer = pyproj world 3857 4326;
         x_ticks = linspace (west - x_padding) (east + x_padding) 6;
         y_ticks = linspace (south - y_padding) (north + y_padding) 6;
         x_tick_lons = map (fst \<circ> transformer)
                         (zip x_ticks (replicate (length x_ticks) south));
         y_tick_lats = map (snd \<circ> transformer)
                         (zip (replicate (length y_ticks) west) y_ticks);
         ax = ax\<lparr>xticks := x_ticks\<rparr>;
         ax = ax\<lparr>yticks := y_ticks\<rparr>;
         ax = ax\<lparr>xticklabels :=
                  map (\<lambda>lon. format_2f world lon @ [degree_sign, CHR ''E'']) x_tick_lons\<rparr>;
         ax = ax\<lparr>yticklabels :=
                  map (\<lambda>lat. format_2f world lat @ [degree_sign, CHR ''N'']) y_tick_lats\<rparr>;
         ax = ax\<lparr>grid := True\<rparr>;
         ax = ax\<lparr>legend := [''Study Area'']\<rparr>;
         scalebar_length = 15000;
         scalebar_x_start = east + x_padding - scalebar_length - 5000;
         scalebar_y = south - y_padding + y_range * 0.05;
         ax = plot_line [scalebar_x_start, scalebar_x_start + scalebar_length]
                        [scalebar_y, scalebar_y] ''black'' 6 ax;
         ax = ax\<lparr>texts := texts ax @
                [\<lparr>text_x = scalebar_x_start + scalebar_length / 2,
                  text_y = scalebar_y + 500, text_s = ''15 KM'',
                  text_ha = ''center'', text_va = ''bottom''\<rparr>]\<rparr>;
         ax = plot_line [scalebar_x_start, scalebar_x_start]
                        [scalebar_y - 300, scalebar_y + 300] ''black'' 2 ax;
         ax = plot_line [scalebar_x_start + scalebar_length, scalebar_x_start + scalebar_length]
                        [scalebar_y - 300, scalebar_y + 300] ''black'' 2 ax;
         x = 0.95; y = 0.95; arrow_length = 0.05;
         ax = ax\<lparr>annotations := annotations ax @
                [\<lparr>ann_s = ''N'', ann_xy = (x, y), ann_xytext = (x, y - arrow_length)\<rparr>]\<rparr>;
         ax = ax\<lparr>ax_title := map_title\<rparr>;
         ax = ax\<lparr>xlabel := ''Longitude''\<rparr>;
         ax = ax\<lparr>ylabel := ''Latitude''\<rparr>
     in
     and_then (io (MakeDirs output_dir) (makedirs world output_dir)) (\<lambda>_.
     let output_path = join output_dir (shapefile_name @ ''_basemap.png'') in
     and_then (io (SaveFig output_path ax) (savefig world output_path)) (\<lambda>_.
     and_then (io (Print (''Base map saved to: '' @ output_path)) (Inr ())) (\<lambda>_.
     and_then (io Show (Inr ())) (\<lambda>_.
     lift (Inr ax))))))))))"

section \<open>The entry point\<close>

definition backslash :: char where
  "backslash = CHR 0x5C"

definition main_output_dir :: string where
  "main_output_dir =
     ''C:'' @ concat (map (\<lambda>d. backslash # d)
       [''Users'', ''NagaiLab'', ''Gemini_conversation'', ''Create_Base_Maps'',
        ''output_base_maps''])"

definition quote_chars :: string where
  "quote_chars = [CHR 0x22, CHR 0x27]"

text \<open>
  The script body under \<open>__main__\<close>. \<open>stdin\<close> is the line that \<open>input()\<close> reads,
  without its newline, or \<open>None\<close> at end of input.
\<close>

definition main :: "env \<Rightarrow> string option \<Rightarrow> unit run" where
  "main world stdin =
     and_then (io (Print ''Please enter the path to your shapefile/GeoJSON file:'') (Inr ())) (\<lambda>_.
     and_then (lift (case stdin of None \<Rightarrow> Inl EOFError | Some line \<Rightarrow> Inr line)) (\<lambda>line.
     let shapefile_path = str_strip line;
         shapefile_path = str_strip_chars quote_chars shapefile_path
     in
     if \<not> path_exists world shapefile_path then
       and_then (io (Print (''Error: File not found at '' @ shapefile_path)) (Inr ())) (\<lambda>_.
       lift (Inl (SystemExit 1)))
     else
       let output_dir = main_output_dir in
       and_then (io (MakeDirs output_dir) (makedirs world output_dir)) (\<lambda>_.
       and_then (io (Print (''Processing shapefile: '' @ shapefile_path)) (Inr ())) (\<lambda>_.
       and_then (io (Print (''Output will be saved to: '' @ output_dir)) (Inr ())) (\<lambda>_.
       and_then (create_base_map world shapefile_path output_dir) (\<lambda>_.
       lift (Inr ())))))))"

text \<open>
  The exit status of the interpreter: 0 when the script runs to its end, the argument
  of \<open>exit\<close>, and 1 for any other uncaught exception.
\<close>

definition exit_status :: "unit run \<Rightarrow> int" where
  "exit_status r =
     (case snd r of
        Inr _ \<Rightarrow> 0
      | Inl (SystemExit n) \<Rightarrow> n
      | Inl _ \<Rightarrow> 1)"

text \<open>Events that touch files or the network.\<close>

fun file_or_network_io :: "event \<Rightarrow> bool" where
  "file_or_network_io (Print _) = False"
| "file_or_network_io (ReadFile _) = True"
| "file_or_network_io (FetchTiles _ _) = True"
| "file_or_network_io (MakeDirs _) = True"
| "file_or_network_io (SaveFig _ _) = True"
| "file_or_network_io Show = False"

text \<open>The paths of the images a run writes.\<close>

fun saved_paths :: "event list \<Rightarrow> string list" where
  "saved_paths [] = []"
| "saved_paths (SaveFig path _ # evs) = path # saved_paths evs"
| "saved_paths (_ # evs) = saved_paths evs"

text \<open>
  The image files present after the events of a completed run, starting from the files
  \<open>fs\<close>: \<open>savefig\<close> creates the file or replaces the one of that name.
\<close>

fun files_after :: "event list \<Rightarrow> (string \<rightharpoonup> axes) \<Rightarrow> (string \<rightharpoonup> axes)" where
  "files_after [] fs = fs"
| "files_after (SaveFig path fig # evs) fs = files_after evs (fs(path \<mapsto> fig))"
| "files_after (_ # evs) fs = files_after evs fs"

section \<open>The title, as the specification words it\<close>

text \<open>
  The specification describes the title as the base name with underscores replaced by
  spaces and each word capitalized. \<open>spec_title\<close> follows these words: the words are
  what lies between spaces, and a word is capitalized as \<open>str.capitalize\<close> does it,
  first character in title case and the others in lower case.
\<close>

fun split_on :: "char \<Rightarrow> string \<Rightarrow> string list" where
  "split_on sep [] = [[]]"
| "split_on sep (c # cs) =
     (if c = sep then [] # split_on sep cs
      else (case split_on sep cs of
              [] \<Rightarrow> [[c]]
            | w # ws \<Rightarrow> (c # w) # ws))"

fun join_with :: "'a \<Rightarrow> 'a list list \<Rightarrow> 'a list" where
  "join_with sep [] = []"
| "join_with sep [w] = w"
| "join_with sep (w # ws) = w @ sep # join_with sep ws"

definition capitalize :: "string \<Rightarrow> codepoint list" where
  "capitalize w = (case w of [] \<Rightarrow> [] | c # cs \<Rightarrow> to_title c @ map to_lower cs)"

definition spec_title :: "string \<Rightarrow> codepoint list" where
  "spec_title name =
     join_with 32
       (map capitalize (split_on (CHR '' '') (str_replace (CHR ''_'') (CHR '' '') name)))"

text \<open>
  Capitalizing the words in one pass: \<open>in_word\<close> tells whether the previous character
  belongs to the current word.
\<close>

fun cap_from :: "bool \<Rightarrow> string \<Rightarrow> codepoint list" where
  "cap_from in_word [] = []"
| "cap_from in_word (c # cs) =
     (if in_word then [to_lower c] else to_title c) @ cap_from (c \<noteq> CHR '' '') cs"

text \<open>
  A name has plain words when each of its letters comes first or follows a letter,
  an underscore or a space; \<open>q\<close> is the character before the part looked at.
\<close>

fun plain_words_from :: "char \<Rightarrow> string \<Rightarrow> bool" where
  "plain_words_from q [] = True"
| "plain_words_from q (c # cs) =
     ((iscased c \<longrightarrow> iscased q \<or> q = CHR '' '' \<or> q = CHR ''_'') \<and> plain_words_from c cs)"

definition plain_words :: "string \<Rightarrow> bool" where
  "plain_words name = plain_words_from (CHR '' '') name"

section \<open>A sample world\<close>

text \<open>
  Collaborators for running the model on concrete inputs: files of which one
  declares no reference system, one is geographic, one is in UTM zone 43N and one holds
  a plot of two kilometres; a linear
  stand-in for the projection (100000 metres per degree); a tile service and a file
  system that never fail; two decimals printed for values below 1000.
\<close>

definition sample_square :: "point list list" where
  "sample_square = [[(77, 28), (77.5, 28), (77.5, 28.4), (77, 28.4), (77, 28)]]"

definition sample_small :: "point list list" where
  "sample_small = [[(77, 28), (77.1, 28), (77.1, 28.1), (77, 28.1), (77, 28)]]"

definition study_area_gdf :: geodataframe where
  "study_area_gdf = \<lparr>geometry = sample_square, crs = None\<rparr>"

definition zone2b_gdf :: geodataframe where
  "zone2b_gdf = \<lparr>geometry = sample_small, crs = Some 4326\<rparr>"

definition tiny_plot_gdf :: geodataframe where
  "tiny_plot_gdf =
     \<lparr>geometry = [[(77, 28), (77.02, 28), (77.02, 28.02), (77, 28.02), (77, 28)]],
      crs = Some 4326\<rparr>"

definition utm_gdf :: geodataframe where
  "utm_gdf = \<lparr>geometry = [[(500000, 3100000), (510000, 3110000)]], crs = Some 32643\<rparr>"

definition sample_read_file :: "string \<Rightarrow> error + geodataframe" where
  "sample_read_file p =
     (if p = ''/data/study_area.shp'' then Inr study_area_gdf
      else if p = ''/data/zone2b.geojson'' then Inr zone2b_gdf
      else if p = ''/data/utm_area.shp'' then Inr utm_gdf
      else if p = ''/data/tiny_plot.shp'' then Inr tiny_plot_gdf
      else Inl ReadError)"

definition sample_pyproj :: "nat \<Rightarrow> nat \<Rightarrow> point \<Rightarrow> point" where
  "sample_pyproj src dst p =
     (if src = 4326 \<and> dst = 3857 then (fst p * 100000, snd p * 100000)
      else if src = 3857 \<and> dst = 4326 then (fst p / 100000, snd p / 100000)
      else p)"

definition digit_char :: "nat \<Rightarrow> char" where
  "digit_char n = ''0123456789'' ! (n mod 10)"

definition sample_format_2f :: "real \<Rightarrow> string" where
  "sample_format_2f v =
     (let n = nat \<lfloor>\<bar>v\<bar> * 100 + 1 / 2\<rfloor>;
          whole = n div 100;
          ds = dropWhile (\<lambda>c. c = CHR ''0'')
                 [digit_char (whole div 100), digit_char (whole div 10), digit_char whole]
      in (if v < 0 then ''-'' else []) @ (if ds = [] then ''0'' else ds) @ ''.''
           @ [digit_char (n div 10), digit_char n])"

definition sample_world :: env where
  "sample_world =
     \<lparr>path_exists = (\<lambda>p. p \<in> set [''/data/study_area.shp'', ''/data/zone2b.geojson'',
                                    ''/data/utm_area.shp'', ''/data/area.shp'',
                                    ''/data/tiny_plot.shp'']),
      read_file = sample_read_file,
      pyproj = sample_pyproj,
      fetch_tiles = (\<lambda>xl yl. Inr ''tiles''),
      makedirs = (\<lambda>d. Inr ()),
      savefig = (\<lambda>p. Inr ()),
      format_2f = sample_format_2f\<rparr>"

text \<open>The same world with a tile service that answers with other imagery.\<close>

definition sample_world_later :: env where
  "sample_world_later = sample_world\<lparr>fetch_tiles := (\<lambda>xl yl. Inr ''newer tiles'')\<rparr>"

section \<open>Running to completion\<close>

lemma and_then_Inr:
  "and_then m f = (tr, Inr b) \<longleftrightarrow>
     (\<exists>t1 a t2. m = (t1, Inr a) \<and> f a = (t2, Inr b) \<and> tr = t1 @ t2)"
  by (auto simp: and_then_def split: prod.splits sum.splits)

lemma and_then_ok: "and_then (t, Inr a) f = (t @ fst (f a), snd (f a))"
  by (simp add: and_then_def split: prod.splits)

lemma and_then_failed: "and_then (t, Inl e) f = (t, Inl e)"
  by (simp add: and_then_def)

lemma io_Inr: "io ev r = (tr, Inr a) \<longleftrightarrow> r = Inr a \<and> tr = [ev]"
  by (auto simp: io_def)

lemma lift_Inr: "lift r = (tr, Inr a) \<longleftrightarrow> r = Inr a \<and> tr = []"
  by (auto simp: lift_def)

lemma zip_replicate_right: "zip xs (replicate (length xs) c) = map (\<lambda>x. (x, c)) xs"
  by (induction xs) auto

lemma zip_replicate_left: "zip (replicate (length xs) c) xs = map (\<lambda>x. (c, x)) xs"
  by (induction xs) auto

text \<open>
  A call that returns has read the file, assigned and changed the reference system,
  found a bounding box, fetched the tiles, made the directory and saved the figure;
  the axes and the events are then determined by the bounding box.
\<close>

lemma create_base_map_completed:
  assumes "create_base_map world p d = (tr, Inr ax)"
  shows "\<exists>gdf g gdf_wm west south east north tiles.
     read_file world p = Inr gdf \<and> set_crs gdf 4326 = Inr g \<and>
     to_crs (pyproj world) g 3857 = Inr gdf_wm \<and>
     total_bounds gdf_wm = Some (west, south, east, north) \<and>
     fetch_tiles world (xlim ax) (ylim ax) = Inr tiles \<and>
     makedirs world d = Inr () \<and>
     ax = \<lparr>layers = [\<lparr>layer_geometry = geometry gdf_wm, layer_alpha = 0.5,
                  layer_edgecolor = ''black'', layer_facecolor = ''saddlebrown'',
                  layer_linewidth = 3\<rparr>],
           xlim = (west - (east - west) * 0.2, east + (east - west) * 0.2),
           ylim = (south - (north - south) * 0.2, north + (north - south) * 0.2),
           basemap = Some tiles,
           xticks = linspace (west - (east - west) * 0.2) (east + (east - west) * 0.2) 6,
           yticks = linspace (south - (north - south) * 0.2) (north + (north - south) * 0.2) 6,
           xticklabels = map (\<lambda>t. format_2f world (fst (pyproj world 3857 4326 (t, south)))
                                   @ [degree_sign, CHR ''E''])
                             (linspace (west - (east - west) * 0.2) (east + (east - west) * 0.2) 6),
           yticklabels = map (\<lambda>t. format_2f world (snd (pyproj world 3857 4326 (west, t)))
                                   @ [degree_sign, CHR ''N''])
                             (linspace (south - (north - south) * 0.2) (north + (north - south) * 0.2) 6),
           grid = True, legend = [''Study Area''],
           lines = [\<lparr>line_x = [east + (east - west) * 0.2 - 15000 - 5000,
                               east + (east - west) * 0.2 - 15000 - 5000 + 15000],
                      line_y = [south - (north - south) * 0.2 + (north - south) * 0.05,
                                south - (north - south) * 0.2 + (north - south) * 0.05],
                      line_color = ''black'', line_width = 6\<rparr>,
                    \<lparr>line_x = [east + (east - west) * 0.2 - 15000 - 5000,
                               east + (east - west) * 0.2 - 15000 - 5000],
                      line_y = [south - (north - south) * 0.2 + (north - south) * 0.05 - 300,
                                south - (north - south) * 0.2 + (north - south) * 0.05 + 300],
                      line_color = ''black'', line_width = 2\<rparr>,
                    \<lparr>line_x = [east + (east - west) * 0.2 - 15000 - 5000 + 15000,
                               east + (east - west) * 0.2 - 15000 - 5000 + 15000],
                      line_y = [south - (north - south) * 0.2 + (north - south) * 0.05 - 300,
                                south - (north - south) * 0.2 + (north - south) * 0.05 + 300],
                      line_color = ''black'', line_width = 2\<rparr>],
           texts = [\<lparr>text_x = east + (east - west) * 0.2 - 15000 - 5000 + 15000 / 2,
                      text_y = south - (north - south) * 0.2 + (north - south) * 0.05 + 500,
                      text_s = ''15 KM'', text_ha = ''center'', text_va = ''bottom''\<rparr>],
           annotations = [\<lparr>ann_s = ''N'', ann_xy = (0.95, 0.95),
                            ann_xytext = (0.95, 0.95 - 0.05)\<rparr>],
           ax_title = str_title (str_replace (CHR ''_'') (CHR '' '') (fst (splitext (basename p)))),
           xlabel = ''Longitude'', ylabel = ''Latitude''\<rparr> \<and>
     tr = [ReadFile p, FetchTiles (xlim ax) (ylim ax), MakeDirs d,
           SaveFig (join d (fst (splitext (basename p)) @ ''_basemap.png'')) ax,
           Print (''Base map saved to: ''
                    @ join d (fst (splitext (basename p)) @ ''_basemap.png'')),
           Show]"
  using assms
  unfolding create_base_map_def Let_def
  by (auto simp: and_then_Inr io_Inr lift_Inr plot_line_def subplots_def
        zip_replicate_right zip_replicate_left comp_def
      split: option.splits prod.splits)

text \<open>Conversely, the call returns when every collaborator answers.\<close>

lemma create_base_map_completes:
  assumes "read_file world p = Inr gdf"
    and "set_crs gdf 4326 = Inr g"
    and "to_crs (pyproj world) g 3857 = Inr gdf_wm"
    and "total_bounds gdf_wm = Some (west, south, east, north)"
    and "fetch_tiles world (west - (east - west) * 0.2, east + (east - west) * 0.2)
           (south - (north - south) * 0.2, north + (north - south) * 0.2) = Inr tiles"
    and "makedirs world d = Inr ()"
    and "savefig world (join d (fst (splitext (basename p)) @ ''_basemap.png'')) = Inr ()"
  shows "\<exists>tr ax. create_base_map world p d = (tr, Inr ax)"
  using assms
  unfolding create_base_map_def Let_def
  by (simp add: and_then_ok io_def lift_def)

text \<open>What a returning call has drawn, in terms of the bounding box.\<close>

lemma drawn_from_bounds:
  assumes "read_file world p = Inr gdf"
    and "set_crs gdf 4326 = Inr g"
    and "to_crs (pyproj world) g 3857 = Inr gdf_wm"
    and "total_bounds gdf_wm = Some (west, south, east, north)"
    and "create_base_map world p d = (tr, Inr ax)"
  shows "xlim ax = (west - (east - west) * 0.2, east + (east - west) * 0.2)"
    and "ylim ax = (south - (north - south) * 0.2, north + (north - south) * 0.2)"
    and "xticks ax = linspace (west - (east - west) * 0.2) (east + (east - west) * 0.2) 6"
    and "yticks ax = linspace (south - (north - south) * 0.2) (north + (north - south) * 0.2) 6"
    and "xticklabels ax =
           map (\<lambda>t. format_2f world (fst (pyproj world 3857 4326 (t, south)))
                      @ [degree_sign, CHR ''E'']) (xticks ax)"
    and "yticklabels ax =
           map (\<lambda>t. format_2f world (snd (pyproj world 3857 4326 (west, t)))
                      @ [degree_sign, CHR ''N'']) (yticks ax)"
    and "lines ax =
           [\<lparr>line_x = [east + (east - west) * 0.2 - 15000 - 5000,
                       east + (east - west) * 0.2 - 15000 - 5000 + 15000],
             line_y = [south - (north - south) * 0.2 + (north - south) * 0.05,
                       south - (north - south) * 0.2 + (north - south) * 0.05],
             line_color = ''black'', line_width = 6\<rparr>,
            \<lparr>line_x = [east + (east - west) * 0.2 - 15000 - 5000,
                       east + (east - west) * 0.2 - 15000 - 5000],
             line_y = [south - (north - south) * 0.2 + (north - south) * 0.05 - 300,
                       south - (north - south) * 0.2 + (north - south) * 0.05 + 300],
             line_color = ''black'', line_width = 2\<rparr>,
            \<lparr>line_x = [east + (east - west) * 0.2 - 15000 - 5000 + 15000,
                       east + (east - west) * 0.2 - 15000 - 5000 + 15000],
             line_y = [south - (north - south) * 0.2 + (north - south) * 0.05 - 300,
                       south - (north - south) * 0.2 + (north - south) * 0.05 + 300],
             line_color = ''black'', line_width = 2\<rparr>]"
    and "texts ax =
           [\<lparr>text_x = east + (east - west) * 0.2 - 15000 - 5000 + 15000 / 2,
             text_y = south - (north - south) * 0.2 + (north - south) * 0.05 + 500,
             text_s = ''15 KM'', text_ha = ''center'', text_va = ''bottom''\<rparr>]"
proof -
  from create_base_map_completed [OF assms(5)] obtain gdf_wm' w s e n tiles
    where 1: "to_crs (pyproj world) g 3857 = Inr gdf_wm'"
      and 2: "total_bounds gdf_wm' = Some (w, s, e, n)"
      and 3: "ax = \<lparr>layers = [\<lparr>layer_geometry = geometry gdf_wm', layer_alpha = 0.5,
                  layer_edgecolor = ''black'', layer_facecolor = ''saddlebrown'',
                  layer_linewidth = 3\<rparr>],
           xlim = (w - (e - w) * 0.2, e + (e - w) * 0.2),
           ylim = (s - (n - s) * 0.2, n + (n - s) * 0.2),
           basemap = Some tiles,
           xticks = linspace (w - (e - w) * 0.2) (e + (e - w) * 0.2) 6,
           yticks = linspace (s - (n - s) * 0.2) (n + (n - s) * 0.2) 6,
           xticklabels = map (\<lambda>t. format_2f world (fst (pyproj world 3857 4326 (t, s)))
                                   @ [degree_sign, CHR ''E''])
                             (linspace (w - (e - w) * 0.2) (e + (e - w) * 0.2) 6),
           yticklabels = map (\<lambda>t. format_2f world (snd (pyproj world 3857 4326 (w, t)))
                                   @ [degree_sign, CHR ''N''])
                             (linspace (s - (n - s) * 0.2) (n + (n - s) * 0.2) 6),
           grid = True, legend = [''Study Area''],
           lines = [\<lparr>line_x = [e + (e - w) * 0.2 - 15000 - 5000,
                               e + (e - w) * 0.2 - 15000 - 5000 + 15000],
                      line_y = [s - (n - s) * 0.2 + (n - s) * 0.05,
                                s - (n - s) * 0.2 + (n - s) * 0.05],
                      line_color = ''black'', line_width = 6\<rparr>,
                    \<lparr>line_x = [e + (e - w) * 0.2 - 15000 - 5000,
                               e + (e - w) * 0.2 - 15000 - 5000],
                      line_y = [s - (n - s) * 0.2 + (n - s) * 0.05 - 300,
                                s - (n - s) * 0.2 + (n - s) * 0.05 + 300],
                      line_color = ''black'', line_width = 2\<rparr>,
                    \<lparr>line_x = [e + (e - w) * 0.2 - 15000 - 5000 + 15000,
                               e + (e - w) * 0.2 - 15000 - 5000 + 15000],
                      line_y = [s - (n - s) * 0.2 + (n - s) * 0.05 - 300,
                                s - (n - s) * 0.2 + (n - s) * 0.05 + 300],
                      line_color = ''black'', line_width = 2\<rparr>],
           texts = [\<lparr>text_x = e + (e - w) * 0.2 - 15000 - 5000 + 15000 / 2,
                      text_y = s - (n - s) * 0.2 + (n - s) * 0.05 + 500,
                      text_s = ''15 KM'', text_ha = ''center'', text_va = ''bottom''\<rparr>],
           annotations = [\<lparr>ann_s = ''N'', ann_xy = (0.95, 0.95),
                            ann_xytext = (0.95, 0.95 - 0.05)\<rparr>],
           ax_title = str_title (str_replace (CHR ''_'') (CHR '' '') (fst (splitext (basename p)))),
           xlabel = ''Longitude'', ylabel = ''Latitude''\<rparr>"
    using assms(1,2) by auto
  from 1 2 assms(3,4) have eq: "w = west" "s = south" "e = east" "n = north"
    by simp_all
  show "xlim ax = (west - (east - west) * 0.2, east + (east - west) * 0.2)"
    by (subst 3) (simp add: eq)
  show "ylim ax = (south - (north - south) * 0.2, north + (north - south) * 0.2)"
    by (subst 3) (simp add: eq)
  show xt: "xticks ax = linspace (west - (east - west) * 0.2) (east + (east - west) * 0.2) 6"
    by (subst 3) (simp add: eq)
  show yt: "yticks ax = linspace (south - (north - south) * 0.2) (north + (north - south) * 0.2) 6"
    by (subst 3) (simp add: eq)
  show "xticklabels ax =
           map (\<lambda>t. format_2f world (fst (pyproj world 3857 4326 (t, south)))
                      @ [degree_sign, CHR ''E'']) (xticks ax)"
    unfolding xt by (subst 3) (simp add: eq)
  show "yticklabels ax =
           map (\<lambda>t. format_2f world (snd (pyproj world 3857 4326 (west, t)))
                      @ [degree_sign, CHR ''N'']) (yticks ax)"
    unfolding yt by (subst 3) (simp add: eq)
  show "lines ax =
           [\<lparr>line_x = [east + (east - west) * 0.2 - 15000 - 5000,
                       east + (east - west) * 0.2 - 15000 - 5000 + 15000],
             line_y = [south - (north - south) * 0.2 + (north - south) * 0.05,
                       south - (north - south) * 0.2 + (north - south) * 0.05],
             line_color = ''black'', line_width = 6\<rparr>,
            \<lparr>line_x = [east + (east - west) * 0.2 - 15000 - 5000,
                       east + (east - west) * 0.2 - 15000 - 5000],
             line_y = [south - (north - south) * 0.2 + (north - south) * 0.05 - 300,
                       south - (north - south) * 0.2 + (north - south) * 0.05 + 300],
             line_color = ''black'', line_width = 2\<rparr>,
            \<lparr>line_x = [east + (east - west) * 0.2 - 15000 - 5000 + 15000,
                       east + (east - west) * 0.2 - 15000 - 5000 + 15000],
             line_y = [south - (north - south) * 0.2 + (north - south) * 0.05 - 300,
                       south - (north - south) * 0.2 + (north - south) * 0.05 + 300],
             line_color = ''black'', line_width = 2\<rparr>]"
    by (subst 3) (simp add: eq)
  show "texts ax =
           [\<lparr>text_x = east + (east - west) * 0.2 - 15000 - 5000 + 15000 / 2,
             text_y = south - (north - south) * 0.2 + (north - south) * 0.05 + 500,
             text_s = ''15 KM'', text_ha = ''center'', text_va = ''bottom''\<rparr>]"
    by (subst 3) (simp add: eq)
qed

subsection \<open>The sample files\<close>

lemmas sample_defs = sample_world_def sample_read_file_def sample_pyproj_def
  sample_square_def sample_small_def study_area_gdf_def zone2b_gdf_def utm_gdf_def
  tiny_plot_gdf_def

lemma study_area_steps:
  "read_file sample_world ''/data/study_area.shp'' = Inr study_area_gdf"
  "set_crs study_area_gdf 4326 = Inr (study_area_gdf\<lparr>crs := Some 4326\<rparr>)"
  "to_crs (pyproj sample_world) (study_area_gdf\<lparr>crs := Some 4326\<rparr>) 3857 =
     Inr \<lparr>geometry = map (map (sample_pyproj 4326 3857)) sample_square, crs = Some 3857\<rparr>"
  "total_bounds \<lparr>geometry = map (map (sample_pyproj 4326 3857)) sample_square, crs = Some 3857\<rparr>
     = Some (7700000, 2800000, 7750000, 2840000)"
  by (simp_all add: sample_defs set_crs_def to_crs_def total_bounds_def)

lemma study_area_run:
  "\<exists>tr ax. create_base_map sample_world ''/data/study_area.shp'' d = (tr, Inr ax)"
  by (rule create_base_map_completes [OF study_area_steps]) (simp_all add: sample_world_def)

lemma zone2b_steps:
  "read_file sample_world ''/data/zone2b.geojson'' = Inr zone2b_gdf"
  "set_crs zone2b_gdf 4326 = Inr zone2b_gdf"
  "to_crs (pyproj sample_world) zone2b_gdf 3857 =
     Inr \<lparr>geometry = map (map (sample_pyproj 4326 3857)) sample_small, crs = Some 3857\<rparr>"
  "total_bounds \<lparr>geometry = map (map (sample_pyproj 4326 3857)) sample_small, crs = Some 3857\<rparr>
     = Some (7700000, 2800000, 7710000, 2810000)"
  by (simp_all add: sample_defs set_crs_def to_crs_def total_bounds_def)

lemma zone2b_run:
  "\<exists>tr ax. create_base_map sample_world ''/data/zone2b.geojson'' d = (tr, Inr ax)"
  by (rule create_base_map_completes [OF zone2b_steps]) (simp_all add: sample_world_def)

lemma study_area_limits:
  assumes "create_base_map sample_world ''/data/study_area.shp'' d = (tr, Inr ax)"
  shows "xlim ax = (7690000, 7760000)" "ylim ax = (2792000, 2848000)"
  using drawn_from_bounds(1,2) [OF study_area_steps assms] by simp_all

lemma zone2b_limits:
  assumes "create_base_map sample_world ''/data/zone2b.geojson'' d = (tr, Inr ax)"
  shows "xlim ax = (7698000, 7712000)" "ylim ax = (2798000, 2812000)"
  using drawn_from_bounds(1,2) [OF zone2b_steps assms] by simp_all

section \<open>Axis limits\<close>

text \<open>
  C1. Whenever the reprojected geometry has the bounding box (west, south, east, north)
  and the call returns, the limits set on the axes are
  x: west - 0.2 (east - west) to east + 0.2 (east - west) and
  y: south - 0.2 (north - south) to north + 0.2 (north - south):
  each axis is padded by a fifth of its own range.
\<close>

theorem axis_limits_padded:
  assumes "read_file world p = Inr gdf"
    and "set_crs gdf 4326 = Inr g"
    and "to_crs (pyproj world) g 3857 = Inr gdf_wm"
    and "total_bounds gdf_wm = Some (west, south, east, north)"
    and "create_base_map world p d = (tr, Inr ax)"
  shows "xlim ax = (west - 0.2 * (east - west), east + 0.2 * (east - west)) \<and>
         ylim ax = (south - 0.2 * (north - south), north + 0.2 * (north - south))"
  using drawn_from_bounds(1,2) [OF assms] by simp

theorem axis_limits_padded_witness:
  "\<exists>tr ax. create_base_map sample_world ''/data/study_area.shp'' ''out'' = (tr, Inr ax) \<and>
     total_bounds \<lparr>geometry = map (map (sample_pyproj 4326 3857)) sample_square,
                   crs = Some 3857\<rparr>
       = Some (7700000, 2800000, 7750000, 2840000) \<and>
     xlim ax = (7690000, 7760000) \<and> ylim ax = (2792000, 2848000)"
proof -
  obtain tr ax
    where run: "create_base_map sample_world ''/data/study_area.shp'' ''out'' = (tr, Inr ax)"
    using study_area_run by blast
  from axis_limits_padded [OF study_area_steps run] run study_area_steps(4)
  show ?thesis by simp
qed

section \<open>Graticule ticks\<close>

lemma upt_6: "[0..<6] = [0, 1, 2, 3, 4, 5]"
  by (simp add: upt_conv_Cons)

lemma linspace_6:
  "linspace a b 6 = [a, a + (b - a) / 5, a + 2 * ((b - a) / 5), a + 3 * ((b - a) / 5),
                     a + 4 * ((b - a) / 5), b]"
proof -
  have upd: "[x0, x1, x2, x3, x4, x5][5 := v] = [x0, x1, x2, x3, x4, v]"
    for x0 x1 x2 x3 x4 x5 v :: real
    by (simp add: eval_nat_numeral)
  show ?thesis
    by (simp add: linspace_def Let_def upt_6 upd)
qed

lemma linspace_6_even:
  "linspace a b 6 = map (\<lambda>i. a + real i * ((b - a) / 5)) [0..<6]"
  by (simp add: linspace_6 upt_6 diff_divide_distrib)

text \<open>
  C3. Whenever the call returns, each axis carries exactly 6 tick positions, from the
  padded lower limit to the padded upper limit inclusive, consecutive ones a fifth of the
  padded range apart. The positions stay in the metric system of the axes; the
  transformation back to degrees is applied to them (with the southern bound for the
  x ticks, the western bound for the y ticks) only to print the labels.
\<close>

theorem tick_positions:
  assumes "read_file world p = Inr gdf"
    and "set_crs gdf 4326 = Inr g"
    and "to_crs (pyproj world) g 3857 = Inr gdf_wm"
    and "total_bounds gdf_wm = Some (west, south, east, north)"
    and "create_base_map world p d = (tr, Inr ax)"
  shows "length (xticks ax) = 6 \<and> length (yticks ax) = 6 \<and>
     xticks ax = map (\<lambda>i. fst (xlim ax) + real i * ((snd (xlim ax) - fst (xlim ax)) / 5)) [0..<6] \<and>
     yticks ax = map (\<lambda>i. fst (ylim ax) + real i * ((snd (ylim ax) - fst (ylim ax)) / 5)) [0..<6] \<and>
     hd (xticks ax) = fst (xlim ax) \<and> last (xticks ax) = snd (xlim ax) \<and>
     hd (yticks ax) = fst (ylim ax) \<and> last (yticks ax) = snd (ylim ax) \<and>
     xticklabels ax =
       map (\<lambda>t. format_2f world (fst (pyproj world 3857 4326 (t, south))) @ [degree_sign, CHR ''E''])
         (xticks ax) \<and>
     yticklabels ax =
       map (\<lambda>t. format_2f world (snd (pyproj world 3857 4326 (west, t))) @ [degree_sign, CHR ''N''])
         (yticks ax)"
proof -
  note d = drawn_from_bounds [OF assms]
  have xt: "xticks ax = linspace (fst (xlim ax)) (snd (xlim ax)) 6"
    using d(1,3) by simp
  have yt: "yticks ax = linspace (fst (ylim ax)) (snd (ylim ax)) 6"
    using d(2,4) by simp
  have ends: "hd (linspace a b 6) = a" "last (linspace a b 6) = b" "length (linspace a b 6) = 6"
    for a b by (simp_all add: linspace_6)
  have "length (xticks ax) = 6" "length (yticks ax) = 6"
    "hd (xticks ax) = fst (xlim ax)" "last (xticks ax) = snd (xlim ax)"
    "hd (yticks ax) = fst (ylim ax)" "last (yticks ax) = snd (ylim ax)"
    unfolding xt yt by (simp_all only: ends)
  moreover have
    "xticks ax = map (\<lambda>i. fst (xlim ax) + real i * ((snd (xlim ax) - fst (xlim ax)) / 5)) [0..<6]"
    "yticks ax = map (\<lambda>i. fst (ylim ax) + real i * ((snd (ylim ax) - fst (ylim ax)) / 5)) [0..<6]"
    using xt yt by (simp_all only: linspace_6_even)
  ultimately show ?thesis
    using d(5,6) by blast
qed

theorem tick_positions_witness:
  "\<exists>tr ax. create_base_map sample_world ''/data/study_area.shp'' ''out'' = (tr, Inr ax) \<and>
     xlim ax = (7690000, 7760000) \<and>
     xticks ax = [7690000, 7704000, 7718000, 7732000, 7746000, 7760000] \<and>
     yticks ax = [2792000, 2803200, 2814400, 2825600, 2836800, 2848000] \<and>
     length (xticklabels ax) = 6 \<and>
     hd (xticklabels ax) = ''76.90'' @ [degree_sign, CHR ''E''] \<and>
     last (yticklabels ax) = ''28.48'' @ [degree_sign, CHR ''N'']"
proof -
  obtain tr ax
    where run: "create_base_map sample_world ''/data/study_area.shp'' ''out'' = (tr, Inr ax)"
    using study_area_run by blast
  note lims = study_area_limits [OF run]
  have fmt: "format_2f sample_world (fst (pyproj sample_world 3857 4326 (7690000, 2800000)))
               = ''76.90''"
    "format_2f sample_world (snd (pyproj sample_world 3857 4326 (7700000, 2848000)))
               = ''28.48''"
    by (simp_all add: sample_world_def sample_pyproj_def sample_format_2f_def digit_char_def
          Let_def)
  from tick_positions [OF study_area_steps run] run lims fmt
  show ?thesis
    by (simp add: upt_6)
qed

section \<open>The scale bar\<close>

lemma tiny_plot_steps:
  "read_file sample_world ''/data/tiny_plot.shp'' = Inr tiny_plot_gdf"
  "set_crs tiny_plot_gdf 4326 = Inr tiny_plot_gdf"
  "to_crs (pyproj sample_world) tiny_plot_gdf 3857 =
     Inr \<lparr>geometry = [[(7700000, 2800000), (7702000, 2800000), (7702000, 2802000),
                        (7700000, 2802000), (7700000, 2800000)]], crs = Some 3857\<rparr>"
  "total_bounds \<lparr>geometry = [[(7700000, 2800000), (7702000, 2800000), (7702000, 2802000),
                        (7700000, 2802000), (7700000, 2800000)]], crs = Some 3857\<rparr>
     = Some (7700000, 2800000, 7702000, 2802000)"
  by (simp_all add: sample_defs set_crs_def to_crs_def total_bounds_def)

lemma tiny_plot_run:
  "\<exists>tr ax. create_base_map sample_world ''/data/tiny_plot.shp'' d = (tr, Inr ax)"
  by (rule create_base_map_completes [OF tiny_plot_steps]) (simp_all add: sample_world_def)

lemma bar_left_of_view:
  "((e::real) + (e - w) * 0.2 - 15000 - 5000 + 15000 < w - (e - w) * 0.2)
     \<longleftrightarrow> e - w < 5000 / 1.4"
  by (auto simp: field_simps)

lemma bar_start_in_view:
  "((w::real) - (e - w) * 0.2 \<le> e + (e - w) * 0.2 - 15000 - 5000)
     \<longleftrightarrow> 20000 / 1.4 \<le> e - w"
  by (auto simp: field_simps)

lemma bar_height:
  "(s::real) - (n - s) * 0.2 + (n - s) * 0.05 - (s - (n - s) * 0.2)
     = (n + (n - s) * 0.2 - (s - (n - s) * 0.2)) / 28"
  by (simp add: field_simps)

text \<open>
  C7, as stated, fails in its conclusion that the bar is placed near the bottom right of
  the padded extent: for a plot two kilometres wide the x limits are 7699600 and 7702400,
  while the bar and both caps lie between 7682400 and 7697400, left of the left limit.
\<close>

theorem scale_bar_placement_counterexample:
  "map_sum id xlim (snd (create_base_map sample_world ''/data/tiny_plot.shp'' ''out''))
     = Inr (7699600, 7702400) \<and>
   map_sum id (map line_x \<circ> lines)
     (snd (create_base_map sample_world ''/data/tiny_plot.shp'' ''out''))
     = Inr [[7682400, 7697400], [7682400, 7682400], [7697400, 7697400]] \<and>
   (7697400 :: real) < 7699600"
proof -
  obtain tr ax
    where run: "create_base_map sample_world ''/data/tiny_plot.shp'' ''out'' = (tr, Inr ax)"
    using tiny_plot_run by blast
  note d = drawn_from_bounds [OF tiny_plot_steps run]
  have "xlim ax = (7699600, 7702400)"
    using d(1) by simp
  moreover have "map line_x (lines ax)
                   = [[7682400, 7697400], [7682400, 7682400], [7697400, 7697400]]"
    using d(7) by simp
  ultimately show ?thesis
    unfolding run by simp
qed

text \<open>
  C7, amended. Whenever the call returns, the scale bar is a line of length 15000 whose
  right end lies 5000 left of the right limit, at the height of the bottom limit plus 0.05
  times the unpadded y range, which is one 28th of the padded height above the bottom
  limit; it has a vertical cap of 300 up and down at either end, and the text 15 KM is
  anchored by its centre at the middle of the bar, 500 above it. The bar begins inside
  the x limits exactly when the x range of the reprojected geometry is at least
  20000 / 1.4, and it lies entirely left of the left limit exactly when the x range is
  below 5000 / 1.4.
\<close>

theorem scale_bar_placement:
  assumes "read_file world p = Inr gdf"
    and "set_crs gdf 4326 = Inr g"
    and "to_crs (pyproj world) g 3857 = Inr gdf_wm"
    and "total_bounds gdf_wm = Some (west, south, east, north)"
    and "create_base_map world p d = (tr, Inr ax)"
  shows "\<exists>x_start y.
     lines ax =
       [\<lparr>line_x = [x_start, x_start + 15000], line_y = [y, y],
         line_color = ''black'', line_width = 6\<rparr>,
        \<lparr>line_x = [x_start, x_start], line_y = [y - 300, y + 300],
         line_color = ''black'', line_width = 2\<rparr>,
        \<lparr>line_x = [x_start + 15000, x_start + 15000], line_y = [y - 300, y + 300],
         line_color = ''black'', line_width = 2\<rparr>] \<and>
     x_start + 15000 = snd (xlim ax) - 5000 \<and>
     y = fst (ylim ax) + 0.05 * (north - south) \<and>
     texts ax =
       [\<lparr>text_x = (x_start + (x_start + 15000)) / 2, text_y = y + 500, text_s = ''15 KM'',
         text_ha = ''center'', text_va = ''bottom''\<rparr>] \<and>
     y - fst (ylim ax) = (snd (ylim ax) - fst (ylim ax)) / 28 \<and>
     (fst (xlim ax) \<le> x_start \<longleftrightarrow> 20000 / 1.4 \<le> east - west) \<and>
     (x_start + 15000 < fst (xlim ax) \<longleftrightarrow> east - west < 5000 / 1.4)"
proof -
  note d = drawn_from_bounds [OF assms]
  define x_start where "x_start = east + (east - west) * 0.2 - 15000 - 5000"
  define y where "y = south - (north - south) * 0.2 + (north - south) * 0.05"
  have 1: "lines ax =
       [\<lparr>line_x = [x_start, x_start + 15000], line_y = [y, y],
         line_color = ''black'', line_width = 6\<rparr>,
        \<lparr>line_x = [x_start, x_start], line_y = [y - 300, y + 300],
         line_color = ''black'', line_width = 2\<rparr>,
        \<lparr>line_x = [x_start + 15000, x_start + 15000], line_y = [y - 300, y + 300],
         line_color = ''black'', line_width = 2\<rparr>]"
    using d(7) by (simp add: x_start_def y_def)
  have 2: "x_start + 15000 = snd (xlim ax) - 5000"
    using d(1) by (simp add: x_start_def)
  have 3: "y = fst (ylim ax) + 0.05 * (north - south)"
    using d(2) by (simp add: y_def)
  have 4: "texts ax =
       [\<lparr>text_x = (x_start + (x_start + 15000)) / 2, text_y = y + 500, text_s = ''15 KM'',
         text_ha = ''center'', text_va = ''bottom''\<rparr>]"
    using d(8) by (simp add: x_start_def y_def)
  have 5: "y - fst (ylim ax) = (snd (ylim ax) - fst (ylim ax)) / 28"
    unfolding d(2) y_def fst_conv snd_conv by (rule bar_height)
  have 6: "fst (xlim ax) \<le> x_start \<longleftrightarrow> 20000 / 1.4 \<le> east - west"
    unfolding d(1) x_start_def fst_conv by (rule bar_start_in_view)
  have 7: "x_start + 15000 < fst (xlim ax) \<longleftrightarrow> east - west < 5000 / 1.4"
    unfolding d(1) x_start_def fst_conv by (rule bar_left_of_view)
  show ?thesis
    by (intro exI [of _ x_start] exI [of _ y] conjI) (rule 1 2 3 4 5 6 7)+
qed

theorem scale_bar_placement_witness:
  "\<exists>tr ax. create_base_map sample_world ''/data/study_area.shp'' ''out'' = (tr, Inr ax) \<and>
     xlim ax = (7690000, 7760000) \<and> ylim ax = (2792000, 2848000) \<and>
     lines ax =
       [\<lparr>line_x = [7740000, 7755000], line_y = [2794000, 2794000],
         line_color = ''black'', line_width = 6\<rparr>,
        \<lparr>line_x = [7740000, 7740000], line_y = [2793700, 2794300],
         line_color = ''black'', line_width = 2\<rparr>,
        \<lparr>line_x = [7755000, 7755000], line_y = [2793700, 2794300],
         line_color = ''black'', line_width = 2\<rparr>] \<and>
     texts ax =
       [\<lparr>text_x = 7747500, text_y = 2794500, text_s = ''15 KM'',
         text_ha = ''center'', text_va = ''bottom''\<rparr>] \<and>
     (20000 :: real) / 1.4 \<le> 7750000 - 7700000"
proof -
  obtain tr ax
    where run: "create_base_map sample_world ''/data/study_area.shp'' ''out'' = (tr, Inr ax)"
    using study_area_run by blast
  note lims = study_area_limits [OF run]
  from scale_bar_placement [OF study_area_steps run] obtain x_start y
    where l: "lines ax =
       [\<lparr>line_x = [x_start, x_start + 15000], line_y = [y, y],
         line_color = ''black'', line_width = 6\<rparr>,
        \<lparr>line_x = [x_start, x_start], line_y = [y - 300, y + 300],
         line_color = ''black'', line_width = 2\<rparr>,
        \<lparr>line_x = [x_start + 15000, x_start + 15000], line_y = [y - 300, y + 300],
         line_color = ''black'', line_width = 2\<rparr>]"
      and x: "x_start + 15000 = snd (xlim ax) - 5000"
      and y: "y = fst (ylim ax) + 0.05 * (2840000 - 2800000)"
      and t: "texts ax =
       [\<lparr>text_x = (x_start + (x_start + 15000)) / 2, text_y = y + 500, text_s = ''15 KM'',
         text_ha = ''center'', text_va = ''bottom''\<rparr>]"
      and inside: "fst (xlim ax) \<le> x_start \<longleftrightarrow> (20000 :: real) / 1.4 \<le> 7750000 - 7700000"
    by blast
  from x lims have x': "x_start = 7740000" by simp
  from y lims have y': "y = 2794000" by simp
  from inside lims x' have "(20000 :: real) / 1.4 \<le> 7750000 - 7700000" by simp
  with run lims l t show ?thesis
    unfolding x' y' by simp
qed

lemma left_end_outside:
  "((e::real) + 0.2 * (e - w) - 20000 < w - 0.2 * (e - w)) \<longleftrightarrow> e - w < 20000 / 1.4"
  by (auto simp: field_simps)

lemma left_end_inside:
  "((w::real) - 0.2 * (e - w) \<le> e + 0.2 * (e - w) - 20000 \<and>
    e + 0.2 * (e - w) - 20000 \<le> e + 0.2 * (e - w)) \<longleftrightarrow> 20000 / 1.4 \<le> e - w"
  by (auto simp: field_simps)

text \<open>
  C10. Whenever the call returns, the left end of the scale bar is the right limit
  minus 20000. It lies strictly left of the left limit exactly when the x range of
  the reprojected geometry is below 20000 / 1.4, and within the limits exactly when
  the x range is at least 20000 / 1.4.
\<close>

theorem scale_bar_left_end:
  assumes "read_file world p = Inr gdf"
    and "set_crs gdf 4326 = Inr g"
    and "to_crs (pyproj world) g 3857 = Inr gdf_wm"
    and "total_bounds gdf_wm = Some (west, south, east, north)"
    and "create_base_map world p d = (tr, Inr ax)"
  shows "\<exists>x_start.
     line_x (hd (lines ax)) = [x_start, x_start + 15000] \<and>
     x_start = snd (xlim ax) - 20000 \<and>
     (x_start < fst (xlim ax) \<longleftrightarrow> east - west < 20000 / 1.4) \<and>
     (fst (xlim ax) \<le> x_start \<and> x_start \<le> snd (xlim ax) \<longleftrightarrow> 20000 / 1.4 \<le> east - west)"
proof -
  note d = drawn_from_bounds [OF assms]
  define x_start where "x_start = east + (east - west) * 0.2 - 15000 - 5000"
  have "line_x (hd (lines ax)) = [x_start, x_start + 15000]"
    using d(7) by (simp add: x_start_def)
  moreover have x: "x_start = snd (xlim ax) - 20000"
    using d(1) by (simp add: x_start_def)
  moreover have "x_start < fst (xlim ax) \<longleftrightarrow> east - west < 20000 / 1.4"
    unfolding x d(1) using left_end_outside [of east west] by simp
  moreover have "fst (xlim ax) \<le> x_start \<and> x_start \<le> snd (xlim ax)
                   \<longleftrightarrow> 20000 / 1.4 \<le> east - west"
    unfolding x d(1) using left_end_inside [of west east] by simp
  ultimately show ?thesis by blast
qed

theorem scale_bar_left_end_witness:
  "(\<exists>tr ax x_start.
      create_base_map sample_world ''/data/zone2b.geojson'' ''out'' = (tr, Inr ax) \<and>
      xlim ax = (7698000, 7712000) \<and>
      line_x (hd (lines ax)) = [x_start, x_start + 15000] \<and>
      x_start = 7692000 \<and> x_start < fst (xlim ax) \<and>
      (7710000 :: real) - 7700000 < 20000 / 1.4) \<and>
   (\<exists>tr ax x_start.
      create_base_map sample_world ''/data/study_area.shp'' ''out'' = (tr, Inr ax) \<and>
      xlim ax = (7690000, 7760000) \<and>
      line_x (hd (lines ax)) = [x_start, x_start + 15000] \<and>
      x_start = 7740000 \<and> fst (xlim ax) \<le> x_start \<and>
      20000 / 1.4 \<le> (7750000 :: real) - 7700000)"
proof
  obtain tr ax
    where run: "create_base_map sample_world ''/data/zone2b.geojson'' ''out'' = (tr, Inr ax)"
    using zone2b_run by blast
  note lims = zone2b_limits(1) [OF run]
  from scale_bar_left_end [OF zone2b_steps run] obtain x_start
    where "line_x (hd (lines ax)) = [x_start, x_start + 15000]"
      and "x_start = snd (xlim ax) - 20000"
      and "x_start < fst (xlim ax) \<longleftrightarrow> (7710000 :: real) - 7700000 < 20000 / 1.4"
    by blast
  with run lims show "\<exists>tr ax x_start.
      create_base_map sample_world ''/data/zone2b.geojson'' ''out'' = (tr, Inr ax) \<and>
      xlim ax = (7698000, 7712000) \<and>
      line_x (hd (lines ax)) = [x_start, x_start + 15000] \<and>
      x_start = 7692000 \<and> x_start < fst (xlim ax) \<and>
      (7710000 :: real) - 7700000 < 20000 / 1.4"
    by simp
next
  obtain tr ax
    where run: "create_base_map sample_world ''/data/study_area.shp'' ''out'' = (tr, Inr ax)"
    using study_area_run by blast
  note lims = study_area_limits(1) [OF run]
  from scale_bar_left_end [OF study_area_steps run] obtain x_start
    where "line_x (hd (lines ax)) = [x_start, x_start + 15000]"
      and "x_start = snd (xlim ax) - 20000"
    by blast
  with run lims show "\<exists>tr ax x_start.
      create_base_map sample_world ''/data/study_area.shp'' ''out'' = (tr, Inr ax) \<and>
      xlim ax = (7690000, 7760000) \<and>
      line_x (hd (lines ax)) = [x_start, x_start + 15000] \<and>
      x_start = 7740000 \<and> fst (xlim ax) \<le> x_start \<and>
      20000 / 1.4 \<le> (7750000 :: real) - 7700000"
    by simp
qed

section \<open>The output file\<close>

lemma rfind_from_none: "0 \<le> i \<Longrightarrow> (rfind_from i ch s = -1) = (ch \<notin> set s)"
  by (induction s arbitrary: i) (auto simp: Let_def)

lemma rfind_from_found:
  "0 \<le> i \<Longrightarrow> ch \<in> set s \<Longrightarrow>
     i \<le> rfind_from i ch s \<and> rfind_from i ch s < i + int (length s) \<and>
     s ! nat (rfind_from i ch s - i) = ch \<and>
     ch \<notin> set (drop (nat (rfind_from i ch s - i) + 1) s)"
proof (induction s arbitrary: i)
  case Nil
  then show ?case by simp
next
  case (Cons c cs)
  show ?case
  proof (cases "ch \<in> set cs")
    case True
    with Cons.prems have r: "rfind_from (i + 1) ch cs \<noteq> -1"
      by (simp add: rfind_from_none)
    from Cons.IH [of "i + 1"] Cons.prems True
    have ih: "i + 1 \<le> rfind_from (i + 1) ch cs"
      "rfind_from (i + 1) ch cs < i + 1 + int (length cs)"
      "cs ! nat (rfind_from (i + 1) ch cs - (i + 1)) = ch"
      "ch \<notin> set (drop (nat (rfind_from (i + 1) ch cs - (i + 1)) + 1) cs)"
      by simp_all
    define k where "k = nat (rfind_from (i + 1) ch cs - (i + 1))"
    have k: "nat (rfind_from (i + 1) ch cs - i) = Suc k"
      using ih(1) by (simp add: k_def nat_diff_distrib Suc_nat_eq_nat_zadd1)
    have "rfind_from i ch (c # cs) = rfind_from (i + 1) ch cs"
      using r by (simp add: Let_def)
    with ih k show ?thesis
      by (simp add: k_def [symmetric])
  next
    case False
    with Cons.prems have "rfind_from (i + 1) ch cs = -1" and "c = ch"
      by (simp_all add: rfind_from_none)
    with False Cons.prems show ?thesis
      by (simp add: Let_def)
  qed
qed

lemma basename_no_sep: "CHR ''/'' \<notin> set (basename p)"
proof (cases "CHR ''/'' \<in> set p")
  case True
  from rfind_from_found [of 0 "CHR ''/''" p] True
  have "0 \<le> rfind p (CHR ''/'')"
    and "CHR ''/'' \<notin> set (drop (nat (rfind p (CHR ''/'')) + 1) p)"
    by (simp_all add: rfind_def)
  then show ?thesis
    by (simp add: basename_def Let_def nat_add_distrib)
next
  case False
  then have "rfind p (CHR ''/'') = -1"
    using rfind_from_none [of 0 "CHR ''/''" p] by (simp add: rfind_def)
  with False show ?thesis
    by (simp add: basename_def)
qed

lemma splitext_append: "fst (splitext q) @ snd (splitext q) = q"
  by (simp add: splitext_def Let_def)

lemma splitext_ext: "snd (splitext q) = [] \<or> hd (snd (splitext q)) = CHR ''.''"
proof (cases "CHR ''.'' \<in> set q")
  case True
  from rfind_from_found [of 0 "CHR ''.''" q] True
  have "0 \<le> rfind q (CHR ''.'')" "rfind q (CHR ''.'') < int (length q)"
    "q ! nat (rfind q (CHR ''.'')) = CHR ''.''"
    by (simp_all add: rfind_def)
  then show ?thesis
    by (simp add: splitext_def Let_def hd_drop_conv_nth)
next
  case False
  then have "rfind q (CHR ''.'') = -1"
    using rfind_from_none [of 0 "CHR ''.''" q] by (simp add: rfind_def)
  moreover have "-1 \<le> rfind q (CHR ''/'')"
    using rfind_from_none [of 0 "CHR ''/''" q] rfind_from_found [of 0 "CHR ''/''" q]
    by (cases "CHR ''/'' \<in> set q") (simp_all add: rfind_def)
  ultimately show ?thesis
    by (simp add: splitext_def Let_def)
qed

lemma stem_no_sep: "CHR ''/'' \<notin> set (fst (splitext (basename p)))"
proof -
  have "set (fst (splitext (basename p))) \<subseteq> set (basename p)"
    using splitext_append [of "basename p"] by (metis set_append Un_upper1)
  then show ?thesis using basename_no_sep [of p] by blast
qed

lemma no_sep_rfind: "CHR ''/'' \<notin> set b \<Longrightarrow> rfind b (CHR ''/'') = -1"
  using rfind_from_none [of 0 "CHR ''/''" b] by (simp add: rfind_def)

lemma splitext_no_dot:
  assumes "CHR ''/'' \<notin> set b" and "CHR ''.'' \<notin> set b"
  shows "splitext b = (b, [])"
proof -
  have "rfind b (CHR ''.'') = -1"
    using assms(2) rfind_from_none [of 0 "CHR ''.''" b] by (simp add: rfind_def)
  then show ?thesis
    using no_sep_rfind [OF assms(1)]
    by (simp add: splitext_def Let_def del: skip_leading_dots.simps)
qed

lemma last_dot:
  assumes "CHR ''.'' \<in> set b"
  shows "\<exists>k. rfind b (CHR ''.'') = int k \<and> k < length b \<and> b ! k = CHR ''.'' \<and>
             CHR ''.'' \<notin> set (drop (Suc k) b)"
proof -
  from rfind_from_found [of 0 "CHR ''.''" b] assms
  have "0 \<le> rfind b (CHR ''.'')" "rfind b (CHR ''.'') < int (length b)"
    "b ! nat (rfind b (CHR ''.'')) = CHR ''.''"
    "CHR ''.'' \<notin> set (drop (nat (rfind b (CHR ''.'')) + 1) b)"
    by (simp_all add: rfind_def)
  then show ?thesis
    by (intro exI [of _ "nat (rfind b (CHR ''.''))"]) simp
qed

lemma skip_leading_dots_iff:
  "0 \<le> f \<Longrightarrow> d \<le> int (length p) \<Longrightarrow>
     skip_leading_dots p f d \<longleftrightarrow> (\<exists>j. nat f \<le> j \<and> j < nat d \<and> p ! j \<noteq> CHR ''.'')"
proof (induction p f d rule: skip_leading_dots.induct)
  case (1 p f d)
  show ?case
  proof (cases "f < d")
    case False
    then have "\<not> skip_leading_dots p f d"
      by (subst skip_leading_dots.simps) (simp del: skip_leading_dots.simps)
    moreover from False "1.prems" have "\<not> (\<exists>j. nat f \<le> j \<and> j < nat d \<and> p ! j \<noteq> CHR ''.'')"
      by auto
    ultimately show ?thesis by blast
  next
    case True
    with "1.prems" have len: "nat f < length p" by linarith
    then have one: "take 1 (drop (nat f) p) = [p ! nat f]"
      by (simp add: Cons_nth_drop_Suc [symmetric])
    show ?thesis
    proof (cases "p ! nat f = CHR ''.''")
      case False
      with True one have "skip_leading_dots p f d"
        by (subst skip_leading_dots.simps) (simp del: skip_leading_dots.simps)
      moreover from True False "1.prems" have "\<exists>j. nat f \<le> j \<and> j < nat d \<and> p ! j \<noteq> CHR ''.''"
        by (intro exI [of _ "nat f"]) auto
      ultimately show ?thesis by blast
    next
      case dot: True
      with True one have step: "skip_leading_dots p f d = skip_leading_dots p (f + 1) d"
        by (subst skip_leading_dots.simps) (simp del: skip_leading_dots.simps)
      have "0 \<le> f + 1" using "1.prems"(1) by simp
      from "1.IH" [OF True _ this "1.prems"(2)] one dot
      have ih: "skip_leading_dots p (f + 1) d \<longleftrightarrow>
                (\<exists>j. nat (f + 1) \<le> j \<and> j < nat d \<and> p ! j \<noteq> CHR ''.'')"
        by (simp del: skip_leading_dots.simps)
      have suc: "nat (f + 1) = Suc (nat f)"
        using "1.prems"(1) by (simp add: nat_add_distrib)
      have "(\<exists>j. Suc (nat f) \<le> j \<and> j < nat d \<and> p ! j \<noteq> CHR ''.'') \<longleftrightarrow>
            (\<exists>j. nat f \<le> j \<and> j < nat d \<and> p ! j \<noteq> CHR ''.'')"
        using dot by (metis Suc_leD Suc_leI le_neq_implies_less)
      with step ih suc show ?thesis by (simp del: skip_leading_dots.simps)
    qed
  qed
qed

lemma splitext_at_last_dot:
  assumes "CHR ''/'' \<notin> set b"
    and "rfind b (CHR ''.'') = int k" and "k < length b"
  shows "splitext b = (if \<exists>j < k. b ! j \<noteq> CHR ''.'' then (take k b, drop k b) else (b, []))"
proof -
  have skip: "skip_leading_dots b 0 (int k) \<longleftrightarrow> (\<exists>j < k. b ! j \<noteq> CHR ''.'')"
    using skip_leading_dots_iff [of 0 "int k" b] assms(3)
    by (simp del: skip_leading_dots.simps)
  have "splitext b = (if skip_leading_dots b 0 (int k) then (take k b, drop k b) else (b, []))"
    using no_sep_rfind [OF assms(1)] assms(2)
    by (simp add: splitext_def Let_def del: skip_leading_dots.simps)
  then show ?thesis
    by (simp only: skip)
qed

lemma leading_dots_dropped:
  assumes "\<forall>j \<le> k. b ! j = CHR ''.''" and "k < length b"
    and "CHR ''.'' \<notin> set (drop (Suc k) b)"
  shows "CHR ''.'' \<notin> set (dropWhile (\<lambda>c. c = CHR ''.'') b)"
proof -
  have "\<forall>x \<in> set (take (Suc k) b). x = CHR ''.''"
  proof
    fix x assume "x \<in> set (take (Suc k) b)"
    then obtain i where "i < Suc k" "x = b ! i"
      by (auto simp: in_set_conv_nth)
    with assms(1) show "x = CHR ''.''" by simp
  qed
  then have "dropWhile (\<lambda>c. c = CHR ''.'') (take (Suc k) b @ drop (Suc k) b)
               = dropWhile (\<lambda>c. c = CHR ''.'') (drop (Suc k) b)"
    by (intro dropWhile_append2) blast
  then have "dropWhile (\<lambda>c. c = CHR ''.'') b = dropWhile (\<lambda>c. c = CHR ''.'') (drop (Suc k) b)"
    by simp
  then show ?thesis
    using assms(3) by (auto dest: set_dropWhileD)
qed

lemma splitext_parts:
  assumes "CHR ''/'' \<notin> set b"
  shows "(snd (splitext b) \<noteq> [] \<longrightarrow>
            hd (snd (splitext b)) = CHR ''.'' \<and> CHR ''.'' \<notin> set (tl (snd (splitext b))) \<and>
            (\<exists>c \<in> set (fst (splitext b)). c \<noteq> CHR ''.'')) \<and>
         (snd (splitext b) = [] \<longrightarrow>
            CHR ''.'' \<notin> set (dropWhile (\<lambda>c. c = CHR ''.'') (fst (splitext b))))"
proof (cases "CHR ''.'' \<in> set b")
  case False
  have "CHR ''.'' \<notin> set (dropWhile (\<lambda>c. c = CHR ''.'') b)"
    using False set_dropWhileD by fastforce
  then show ?thesis
    unfolding splitext_no_dot [OF assms False] by simp
next
  case True
  from last_dot [OF True] obtain k
    where k: "rfind b (CHR ''.'') = int k" "k < length b" "b ! k = CHR ''.''"
      "CHR ''.'' \<notin> set (drop (Suc k) b)"
    by blast
  note sp = splitext_at_last_dot [OF assms k(1,2)]
  show ?thesis
  proof (cases "\<exists>j < k. b ! j \<noteq> CHR ''.''")
    case some: True
    have sp': "splitext b = (take k b, drop k b)"
      by (simp only: sp some if_True)
    have ext: "drop k b = CHR ''.'' # drop (Suc k) b"
      using k(2,3) by (simp add: Cons_nth_drop_Suc [symmetric])
    from some obtain j where j: "j < k" "b ! j \<noteq> CHR ''.''" by blast
    then have "take k b ! j = b ! j" "j < length (take k b)"
      using k(2) by simp_all
    then have "b ! j \<in> set (take k b)"
      by (metis nth_mem)
    with j(2) have "\<exists>c \<in> set (take k b). c \<noteq> CHR ''.''" by blast
    then show ?thesis
      unfolding sp' using ext k(4) by simp
  next
    case none: False
    have sp': "splitext b = (b, [])"
      by (simp only: sp none if_False)
    have "\<forall>j \<le> k. b ! j = CHR ''.''"
      using none k(3) by (metis le_neq_implies_less)
    from leading_dots_dropped [OF this k(2) k(4)]
    show ?thesis
      unfolding sp' by simp
  qed
qed

lemma join_onto_name:
  "CHR ''/'' \<notin> set stem \<Longrightarrow>
     join d (stem @ ''_basemap.png'') =
       (if d = [] \<or> last d = CHR ''/'' then d else d @ ''/'') @ stem @ ''_basemap.png''"
  by (cases stem) (auto simp: join_def)

lemma basename_split: "\<exists>pre. p = pre @ basename p \<and> (pre = [] \<or> last pre = CHR ''/'')"
proof (cases "CHR ''/'' \<in> set p")
  case True
  define r where "r = nat (rfind p (CHR ''/''))"
  from rfind_from_found [of 0 "CHR ''/''" p] True
  have "0 \<le> rfind p (CHR ''/'')" "rfind p (CHR ''/'') < int (length p)"
    "p ! nat (rfind p (CHR ''/'')) = CHR ''/''"
    by (simp_all add: rfind_def)
  then have r: "r < length p" "p ! r = CHR ''/''" "nat (rfind p (CHR ''/'') + 1) = Suc r"
    by (simp_all add: r_def nat_add_distrib)
  have "p = take (Suc r) p @ basename p"
    by (simp add: basename_def Let_def r(3))
  moreover have "last (take (Suc r) p) = CHR ''/''"
    using r(1,2) by (simp add: take_Suc_conv_app_nth)
  ultimately show ?thesis by blast
next
  case False
  then have "rfind p (CHR ''/'') = -1"
    using rfind_from_none [of 0 "CHR ''/''" p] by (simp add: rfind_def)
  then have "basename p = p" by (simp add: basename_def)
  then show ?thesis by simp
qed

lemma completed_saved_paths:
  assumes "create_base_map world p d = (tr, Inr ax)"
  shows "saved_paths tr = [join d (fst (splitext (basename p)) @ ''_basemap.png'')]"
    and "files_after tr fs = fs(join d (fst (splitext (basename p)) @ ''_basemap.png'') \<mapsto> ax)"
proof -
  from create_base_map_completed [OF assms]
  have tr: "tr = [ReadFile p, FetchTiles (xlim ax) (ylim ax), MakeDirs d,
           SaveFig (join d (fst (splitext (basename p)) @ ''_basemap.png'')) ax,
           Print (''Base map saved to: ''
                    @ join d (fst (splitext (basename p)) @ ''_basemap.png'')),
           Show]"
    by blast
  show "saved_paths tr = [join d (fst (splitext (basename p)) @ ''_basemap.png'')]"
    by (subst tr) simp
  show "files_after tr fs = fs(join d (fst (splitext (basename p)) @ ''_basemap.png'') \<mapsto> ax)"
    by (subst tr) simp
qed

lemma study_area_output_path:
  "join ''out'' (fst (splitext (basename ''/data/study_area.shp'')) @ ''_basemap.png'')
     = ''out/study_area_basemap.png''"
  "splitext (basename ''/data/study_area.shp'') = (''study_area'', ''.shp'')"
  by (simp_all add: join_def splitext_def basename_def rfind_def Let_def)

lemma study_area_run_later:
  "\<exists>tr ax. create_base_map sample_world_later ''/data/study_area.shp'' d = (tr, Inr ax)"
proof (rule create_base_map_completes)
  show "read_file sample_world_later ''/data/study_area.shp'' = Inr study_area_gdf"
    using study_area_steps(1) by (simp add: sample_world_later_def)
  show "set_crs study_area_gdf 4326 = Inr (study_area_gdf\<lparr>crs := Some 4326\<rparr>)"
    by (rule study_area_steps(2))
  show "to_crs (pyproj sample_world_later) (study_area_gdf\<lparr>crs := Some 4326\<rparr>) 3857 =
     Inr \<lparr>geometry = map (map (sample_pyproj 4326 3857)) sample_square, crs = Some 3857\<rparr>"
    using study_area_steps(3) by (simp add: sample_world_later_def)
  show "total_bounds \<lparr>geometry = map (map (sample_pyproj 4326 3857)) sample_square, crs = Some 3857\<rparr>
     = Some (7700000, 2800000, 7750000, 2840000)"
    by (rule study_area_steps(4))
qed (simp_all add: sample_world_later_def sample_world_def)

text \<open>
  C2. Whenever the call returns, it has saved exactly one image. Its path is the
  output directory joined with the stem of the input path followed by
  \<open>_basemap.png\<close>. The stem is the base name, the part of the input path after its
  last slash, without the extension, character for character (underscores included).
  The extension is what begins at the last dot of the base name, provided some character
  before that dot is not a dot; a base name without such a dot loses nothing.
  The stem has no slash, so the file lies directly in the output directory.
\<close>

theorem output_file_name:
  assumes "create_base_map world p d = (tr, Inr ax)"
  shows "\<exists>pre stem ext.
     p = pre @ stem @ ext \<and> (pre = [] \<or> last pre = CHR ''/'') \<and>
     CHR ''/'' \<notin> set (stem @ ext) \<and>
     splitext (basename p) = (stem, ext) \<and> (ext = [] \<or> hd ext = CHR ''.'') \<and>
     (ext \<noteq> [] \<longrightarrow> CHR ''.'' \<notin> set (tl ext) \<and> (\<exists>c \<in> set stem. c \<noteq> CHR ''.'')) \<and>
     (ext = [] \<longrightarrow> CHR ''.'' \<notin> set (dropWhile (\<lambda>c. c = CHR ''.'') stem)) \<and>
     saved_paths tr = [join d (stem @ ''_basemap.png'')] \<and>
     join d (stem @ ''_basemap.png'') =
       (if d = [] \<or> last d = CHR ''/'' then d else d @ ''/'') @ stem @ ''_basemap.png''"
proof -
  obtain pre where pre: "p = pre @ basename p" "pre = [] \<or> last pre = CHR ''/''"
    using basename_split by blast
  define stem where "stem = fst (splitext (basename p))"
  define ext where "ext = snd (splitext (basename p))"
  have se: "stem @ ext = basename p"
    by (simp add: stem_def ext_def splitext_append)
  have 1: "p = pre @ stem @ ext" using pre(1) se by simp
  have 2: "CHR ''/'' \<notin> set (stem @ ext)"
    unfolding se by (rule basename_no_sep)
  have 3: "splitext (basename p) = (stem, ext)"
    by (simp add: stem_def ext_def)
  have 4: "ext = [] \<or> hd ext = CHR ''.''"
    unfolding ext_def by (rule splitext_ext)
  note parts = splitext_parts [OF basename_no_sep [of p], folded stem_def ext_def]
  from parts have 5: "ext \<noteq> [] \<longrightarrow>
      CHR ''.'' \<notin> set (tl ext) \<and> (\<exists>c \<in> set stem. c \<noteq> CHR ''.'')"
    by blast
  from parts have 6: "ext = [] \<longrightarrow> CHR ''.'' \<notin> set (dropWhile (\<lambda>c. c = CHR ''.'') stem)"
    by blast
  have 7: "saved_paths tr = [join d (stem @ ''_basemap.png'')]"
    unfolding stem_def by (rule completed_saved_paths(1) [OF assms])
  have 8: "join d (stem @ ''_basemap.png'') =
       (if d = [] \<or> last d = CHR ''/'' then d else d @ ''/'') @ stem @ ''_basemap.png''"
    unfolding stem_def by (rule join_onto_name [OF stem_no_sep])
  show ?thesis
    by (intro exI [of _ pre] exI [of _ stem] exI [of _ ext] conjI)
       (rule 1 pre(2) 2 3 4 5 6 7 8)+
qed

theorem output_file_name_witness:
  "\<exists>tr ax. create_base_map sample_world ''/data/study_area.shp'' ''out'' = (tr, Inr ax) \<and>
     ''/data/study_area.shp'' = ''/data/'' @ ''study_area'' @ ''.shp'' \<and>
     splitext (basename ''/data/study_area.shp'') = (''study_area'', ''.shp'') \<and>
     saved_paths tr = [''out/study_area_basemap.png'']"
proof -
  obtain tr ax
    where run: "create_base_map sample_world ''/data/study_area.shp'' ''out'' = (tr, Inr ax)"
    using study_area_run by blast
  from output_file_name [OF run] obtain stem ext
    where sp: "splitext (basename ''/data/study_area.shp'') = (stem, ext)"
      and saved: "saved_paths tr = [join ''out'' (stem @ ''_basemap.png'')]"
    by blast
  from sp have stem: "stem = ''study_area''"
    unfolding study_area_output_path(2) by simp
  have "saved_paths tr = [''out/study_area_basemap.png'']"
    unfolding saved stem by (simp add: join_def)
  moreover have "''/data/study_area.shp'' = ''/data/'' @ ''study_area'' @ ''.shp''"
    by simp
  ultimately show ?thesis
    using run study_area_output_path(2) by blast
qed

text \<open>
  C8. The path of the saved image depends on the input path and the output directory
  only: two returning calls with the same two arguments, in whatever worlds, save
  under the same path, and after the second call the file of that path holds the
  figure of the second call, all other files being as before the first.
\<close>

theorem output_path_deterministic:
  assumes "create_base_map world1 p d = (tr1, Inr ax1)"
    and "create_base_map world2 p d = (tr2, Inr ax2)"
  shows "saved_paths tr1 = [join d (fst (splitext (basename p)) @ ''_basemap.png'')] \<and>
     saved_paths tr2 = saved_paths tr1 \<and>
     files_after tr1 fs = fs(join d (fst (splitext (basename p)) @ ''_basemap.png'') \<mapsto> ax1) \<and>
     files_after tr2 (files_after tr1 fs) =
       fs(join d (fst (splitext (basename p)) @ ''_basemap.png'') \<mapsto> ax2)"
  using completed_saved_paths [OF assms(1)] completed_saved_paths [OF assms(2)]
  by simp

theorem output_path_deterministic_witness:
  "\<exists>tr1 ax1 tr2 ax2.
     create_base_map sample_world ''/data/study_area.shp'' ''out'' = (tr1, Inr ax1) \<and>
     create_base_map sample_world_later ''/data/study_area.shp'' ''out'' = (tr2, Inr ax2) \<and>
     basemap ax1 = Some ''tiles'' \<and> basemap ax2 = Some ''newer tiles'' \<and>
     saved_paths tr1 = [''out/study_area_basemap.png''] \<and>
     saved_paths tr2 = [''out/study_area_basemap.png''] \<and>
     files_after tr2 (files_after tr1 Map.empty) = [''out/study_area_basemap.png'' \<mapsto> ax2]"
proof -
  obtain tr1 ax1
    where run1: "create_base_map sample_world ''/data/study_area.shp'' ''out'' = (tr1, Inr ax1)"
    using study_area_run by blast
  obtain tr2 ax2
    where run2: "create_base_map sample_world_later ''/data/study_area.shp'' ''out'' = (tr2, Inr ax2)"
    using study_area_run_later by blast
  from create_base_map_completed [OF run1] obtain t1
    where "fetch_tiles sample_world (xlim ax1) (ylim ax1) = Inr t1" "basemap ax1 = Some t1"
    by (metis axes.select_convs(4))
  then have b1: "basemap ax1 = Some ''tiles''"
    by (simp add: sample_world_def)
  from create_base_map_completed [OF run2] obtain t2
    where "fetch_tiles sample_world_later (xlim ax2) (ylim ax2) = Inr t2" "basemap ax2 = Some t2"
    by (metis axes.select_convs(4))
  then have b2: "basemap ax2 = Some ''newer tiles''"
    by (simp add: sample_world_later_def)
  note det = output_path_deterministic [OF run1 run2, of Map.empty,
      unfolded study_area_output_path(1)]
  have s1: "saved_paths tr1 = [''out/study_area_basemap.png'']"
    using det by blast
  have s2: "saved_paths tr2 = [''out/study_area_basemap.png'']"
    using det by simp
  have "files_after tr2 (files_after tr1 Map.empty) = [''out/study_area_basemap.png'' \<mapsto> ax2]"
    using det by blast
  with run1 run2 b1 b2 s1 s2 show ?thesis
    by blast
qed


section \<open>Running the script\<close>

lemma strip_where_parts:
  "\<exists>lead trail. s = lead @ strip_where P s @ trail \<and>
     (\<forall>c \<in> set lead. P c) \<and> (\<forall>c \<in> set trail. P c) \<and>
     (strip_where P s \<noteq> [] \<longrightarrow> \<not> P (hd (strip_where P s)) \<and> \<not> P (last (strip_where P s)))"
proof -
  define lead where "lead = takeWhile P s"
  define t where "t = dropWhile P s"
  define trail where "trail = rev (takeWhile P (rev t))"
  define core where "core = rev (dropWhile P (rev t))"
  have core: "strip_where P s = core"
    by (simp add: strip_where_def core_def t_def)
  have s: "s = lead @ t"
    by (simp add: lead_def t_def)
  have "rev (core @ trail) = rev t"
    by (simp add: core_def trail_def)
  then have t: "t = core @ trail"
    by (simp only: rev_is_rev_conv)
  have f: "\<forall>c \<in> set lead. P c"
    by (auto simp: lead_def dest: set_takeWhileD)
  have b: "\<forall>c \<in> set trail. P c"
    by (auto simp: trail_def dest: set_takeWhileD)
  have ends: "\<not> P (hd core) \<and> \<not> P (last core)" if ne: "core \<noteq> []"
  proof
    from ne have "dropWhile P (rev t) \<noteq> []" by (simp add: core_def)
    then have "\<not> P (hd (dropWhile P (rev t)))" by (rule hd_dropWhile)
    then show "\<not> P (last core)" by (simp add: core_def last_rev)
    from ne t have "t \<noteq> []" by auto
    then have "\<not> P (hd t)" unfolding t_def by (rule hd_dropWhile)
    with ne t show "\<not> P (hd core)" by (metis hd_append2)
  qed
  from s t f b ends show ?thesis
    unfolding core by auto
qed

lemma main_missing:
  assumes "\<not> path_exists world (str_strip_chars quote_chars (str_strip line))"
  shows "main world (Some line) =
     ([Print ''Please enter the path to your shapefile/GeoJSON file:'',
       Print (''Error: File not found at '' @ str_strip_chars quote_chars (str_strip line))],
      Inl (SystemExit 1))"
  using assms
  by (simp add: main_def Let_def and_then_ok and_then_failed io_def lift_def)

lemma main_existing:
  assumes "path_exists world (str_strip_chars quote_chars (str_strip line))"
    and "makedirs world main_output_dir = Inr ()"
  shows "main world (Some line) =
     ([Print ''Please enter the path to your shapefile/GeoJSON file:'',
       MakeDirs main_output_dir,
       Print (''Processing shapefile: '' @ str_strip_chars quote_chars (str_strip line)),
       Print (''Output will be saved to: '' @ main_output_dir)]
        @ fst (create_base_map world (str_strip_chars quote_chars (str_strip line)) main_output_dir),
      map_sum id (\<lambda>_. ())
        (snd (create_base_map world (str_strip_chars quote_chars (str_strip line)) main_output_dir)))"
proof -
  have tail: "and_then m (\<lambda>_. lift (Inr ())) = (fst m, map_sum id (\<lambda>_. ()) (snd m))"
    for m :: "axes run"
    by (cases m; cases "snd m") (auto simp: and_then_def lift_def)
  show ?thesis
    using assms
    unfolding main_def Let_def tail
    by (simp add: and_then_ok io_def lift_def)
qed

lemma main_eof:
  "main world None =
     ([Print ''Please enter the path to your shapefile/GeoJSON file:''], Inl EOFError)"
  by (simp add: main_def and_then_ok and_then_failed io_def lift_def)

lemma sample_lines:
  "str_strip_chars quote_chars (str_strip ''/nowhere'') = ''/nowhere''"
  "str_strip_chars quote_chars (str_strip ''/data/study_area.shp'') = ''/data/study_area.shp''"
  "str_strip_chars quote_chars
     (str_strip ('' '' @ [CHR 0x22] @ ''/data/study_area.shp'' @ [CHR 0x22] @ ''  ''))
     = ''/data/study_area.shp''"
  "str_strip_chars quote_chars (str_strip (CHR 0x22 # ''/data/area.shp'' @ [CHR 0x22]))
     = ''/data/area.shp''"
  by (simp_all add: str_strip_chars_def str_strip_def strip_where_def isspace_def quote_chars_def)

lemma sample_paths:
  "\<not> path_exists sample_world ''/nowhere''"
  "path_exists sample_world ''/data/study_area.shp''"
  by (simp_all add: sample_world_def)

text \<open>
  C4. When no file exists at the path entered, the script prints the prompt and the
  error message, ends with exit status 1, and none of its events touches a file or the
  network. When the file exists and \<open>create_base_map\<close> returns, the script runs to its
  end with exit status 0.
\<close>

theorem missing_file_exit:
  "(\<not> path_exists world (str_strip_chars quote_chars (str_strip line)) \<longrightarrow>
      main world (Some line) =
        ([Print ''Please enter the path to your shapefile/GeoJSON file:'',
          Print (''Error: File not found at ''
                   @ str_strip_chars quote_chars (str_strip line))],
         Inl (SystemExit 1)) \<and>
      exit_status (main world (Some line)) = 1 \<and>
      filter file_or_network_io (fst (main world (Some line))) = []) \<and>
   (path_exists world (str_strip_chars quote_chars (str_strip line)) \<and>
    create_base_map world (str_strip_chars quote_chars (str_strip line)) main_output_dir
      = (tr, Inr ax) \<longrightarrow>
      main world (Some line) =
        ([Print ''Please enter the path to your shapefile/GeoJSON file:'',
          MakeDirs main_output_dir,
          Print (''Processing shapefile: '' @ str_strip_chars quote_chars (str_strip line)),
          Print (''Output will be saved to: '' @ main_output_dir)] @ tr,
         Inr ()) \<and>
      exit_status (main world (Some line)) = 0)"
proof (intro conjI impI)
  assume missing: "\<not> path_exists world (str_strip_chars quote_chars (str_strip line))"
  show m: "main world (Some line) =
        ([Print ''Please enter the path to your shapefile/GeoJSON file:'',
          Print (''Error: File not found at ''
                   @ str_strip_chars quote_chars (str_strip line))],
         Inl (SystemExit 1))"
    by (rule main_missing [OF missing])
  show "exit_status (main world (Some line)) = 1"
    unfolding m by (simp add: exit_status_def)
  show "filter file_or_network_io (fst (main world (Some line))) = []"
    unfolding m by simp
next
  assume ok: "path_exists world (str_strip_chars quote_chars (str_strip line)) \<and>
    create_base_map world (str_strip_chars quote_chars (str_strip line)) main_output_dir
      = (tr, Inr ax)"
  then have dir: "makedirs world main_output_dir = Inr ()"
    using create_base_map_completed by blast
  show m: "main world (Some line) =
        ([Print ''Please enter the path to your shapefile/GeoJSON file:'',
          MakeDirs main_output_dir,
          Print (''Processing shapefile: '' @ str_strip_chars quote_chars (str_strip line)),
          Print (''Output will be saved to: '' @ main_output_dir)] @ tr,
         Inr ())"
    using main_existing [OF _ dir, of line] ok by simp
  show "exit_status (main world (Some line)) = 0"
    unfolding m by (simp add: exit_status_def)
qed

theorem missing_file_exit_witness:
  "\<not> path_exists sample_world ''/nowhere'' \<and>
   main sample_world (Some ''/nowhere'') =
     ([Print ''Please enter the path to your shapefile/GeoJSON file:'',
       Print ''Error: File not found at /nowhere''], Inl (SystemExit 1)) \<and>
   exit_status (main sample_world (Some ''/nowhere'')) = 1 \<and>
   path_exists sample_world ''/data/study_area.shp'' \<and>
   snd (main sample_world (Some ''/data/study_area.shp'')) = Inr () \<and>
   exit_status (main sample_world (Some ''/data/study_area.shp'')) = 0"
proof -
  obtain tr ax
    where run: "create_base_map sample_world ''/data/study_area.shp'' main_output_dir
                  = (tr, Inr ax)"
    using study_area_run by blast
  note a = missing_file_exit [of sample_world "''/nowhere''", unfolded sample_lines(1),
      THEN conjunct1, rule_format, OF sample_paths(1)]
  note b = missing_file_exit [of sample_world "''/data/study_area.shp''" tr ax,
      unfolded sample_lines(2), THEN conjunct2, rule_format, OF conjI, OF sample_paths(2) run]
  from a have a1: "main sample_world (Some ''/nowhere'') =
     ([Print ''Please enter the path to your shapefile/GeoJSON file:'',
       Print ''Error: File not found at /nowhere''], Inl (SystemExit 1))"
    and a2: "exit_status (main sample_world (Some ''/nowhere'')) = 1"
    by (simp_all add: exit_status_def)
  from b have b1: "snd (main sample_world (Some ''/data/study_area.shp'')) = Inr ()"
    and b2: "exit_status (main sample_world (Some ''/data/study_area.shp'')) = 0"
    by (simp_all add: exit_status_def)
  from a1 a2 b1 b2 sample_paths show ?thesis
    by blast
qed

text \<open>
  C9. The path that is checked and processed is the line read, stripped of surrounding
  whitespace first and of surrounding single and double quote characters then: the line is
  whitespace, quotes, the path, quotes, whitespace, with no further whitespace before the
  leading or after the trailing quotes and no quote at either end of the path. A line that
  holds the quoted path of an existing file is therefore accepted, and
  \<open>create_base_map\<close> is called with the bare path.
\<close>

theorem quoted_path_accepted:
  assumes "p = str_strip_chars quote_chars (str_strip line)"
  shows "str_strip_chars quote_chars (str_strip (CHR 0x22 # ''/data/area.shp'' @ [CHR 0x22]))
           = ''/data/area.shp'' \<and>
     (\<exists>ws1 q1 q2 ws2.
        line = ws1 @ q1 @ p @ q2 @ ws2 \<and>
        (\<forall>c \<in> set (ws1 @ ws2). isspace c) \<and>
        (\<forall>c \<in> set (q1 @ q2). c = CHR 0x22 \<or> c = CHR 0x27) \<and>
        (q1 @ p @ q2 \<noteq> [] \<longrightarrow>
           \<not> isspace (hd (q1 @ p @ q2)) \<and> \<not> isspace (last (q1 @ p @ q2))) \<and>
        (p \<noteq> [] \<longrightarrow> hd p \<notin> {CHR 0x22, CHR 0x27} \<and> last p \<notin> {CHR 0x22, CHR 0x27})) \<and>
     (\<not> path_exists world p \<longrightarrow> snd (main world (Some line)) = Inl (SystemExit 1)) \<and>
     (path_exists world p \<and> makedirs world main_output_dir = Inr () \<longrightarrow>
        main world (Some line) =
          ([Print ''Please enter the path to your shapefile/GeoJSON file:'',
            MakeDirs main_output_dir,
            Print (''Processing shapefile: '' @ p),
            Print (''Output will be saved to: '' @ main_output_dir)]
             @ fst (create_base_map world p main_output_dir),
           map_sum id (\<lambda>_. ()) (snd (create_base_map world p main_output_dir))))"
proof (intro conjI)
  show "str_strip_chars quote_chars (str_strip (CHR 0x22 # ''/data/area.shp'' @ [CHR 0x22]))
           = ''/data/area.shp''"
    by (rule sample_lines(4))
  show "\<exists>ws1 q1 q2 ws2.
        line = ws1 @ q1 @ p @ q2 @ ws2 \<and>
        (\<forall>c \<in> set (ws1 @ ws2). isspace c) \<and>
        (\<forall>c \<in> set (q1 @ q2). c = CHR 0x22 \<or> c = CHR 0x27) \<and>
        (q1 @ p @ q2 \<noteq> [] \<longrightarrow>
           \<not> isspace (hd (q1 @ p @ q2)) \<and> \<not> isspace (last (q1 @ p @ q2))) \<and>
        (p \<noteq> [] \<longrightarrow> hd p \<notin> {CHR 0x22, CHR 0x27} \<and> last p \<notin> {CHR 0x22, CHR 0x27})"
  proof -
    define t where "t = str_strip line"
    from strip_where_parts [of line isspace] obtain ws1 ws2
      where 1: "line = ws1 @ t @ ws2" "\<forall>c \<in> set ws1. isspace c" "\<forall>c \<in> set ws2. isspace c"
        "t \<noteq> [] \<longrightarrow> \<not> isspace (hd t) \<and> \<not> isspace (last t)"
      unfolding t_def str_strip_def by blast
    have p: "p = strip_where (\<lambda>c. c \<in> set quote_chars) t"
      by (simp add: assms t_def str_strip_chars_def)
    from strip_where_parts [of t "\<lambda>c. c \<in> set quote_chars"] obtain q1 q2
      where 2: "t = q1 @ p @ q2" "\<forall>c \<in> set q1. c \<in> set quote_chars"
        "\<forall>c \<in> set q2. c \<in> set quote_chars"
        "p \<noteq> [] \<longrightarrow> hd p \<notin> set quote_chars \<and> last p \<notin> set quote_chars"
      unfolding p by blast
    have "line = ws1 @ q1 @ p @ q2 @ ws2"
      using 1(1) 2(1) by simp
    moreover have "\<forall>c \<in> set (ws1 @ ws2). isspace c"
      using 1(2,3) by auto
    moreover have "\<forall>c \<in> set (q1 @ q2). c = CHR 0x22 \<or> c = CHR 0x27"
      using 2(2,3) by (auto simp: quote_chars_def)
    moreover have "q1 @ p @ q2 \<noteq> [] \<longrightarrow>
           \<not> isspace (hd (q1 @ p @ q2)) \<and> \<not> isspace (last (q1 @ p @ q2))"
      using 1(4) unfolding 2(1) [symmetric] .
    moreover have "p \<noteq> [] \<longrightarrow> hd p \<notin> {CHR 0x22, CHR 0x27} \<and> last p \<notin> {CHR 0x22, CHR 0x27}"
      using 2(4) by (simp add: quote_chars_def)
    ultimately show ?thesis by blast
  qed
  show "\<not> path_exists world p \<longrightarrow> snd (main world (Some line)) = Inl (SystemExit 1)"
    unfolding assms using main_missing [of world line] by simp
  show "path_exists world p \<and> makedirs world main_output_dir = Inr () \<longrightarrow>
        main world (Some line) =
          ([Print ''Please enter the path to your shapefile/GeoJSON file:'',
            MakeDirs main_output_dir,
            Print (''Processing shapefile: '' @ p),
            Print (''Output will be saved to: '' @ main_output_dir)]
             @ fst (create_base_map world p main_output_dir),
           map_sum id (\<lambda>_. ()) (snd (create_base_map world p main_output_dir)))"
    unfolding assms using main_existing [of world line] by blast
qed

theorem quoted_path_accepted_witness:
  "str_strip_chars quote_chars
     (str_strip ('' '' @ [CHR 0x22] @ ''/data/study_area.shp'' @ [CHR 0x22] @ ''  ''))
     = ''/data/study_area.shp'' \<and>
   path_exists sample_world ''/data/study_area.shp'' \<and>
   makedirs sample_world main_output_dir = Inr () \<and>
   ReadFile ''/data/study_area.shp'' \<in> set (fst (main sample_world
     (Some ('' '' @ [CHR 0x22] @ ''/data/study_area.shp'' @ [CHR 0x22] @ ''  '')))) \<and>
   snd (main sample_world
     (Some ('' '' @ [CHR 0x22] @ ''/data/study_area.shp'' @ [CHR 0x22] @ ''  ''))) = Inr ()"
proof -
  let ?line = "'' '' @ [CHR 0x22] @ ''/data/study_area.shp'' @ [CHR 0x22] @ ''  ''"
  obtain tr ax
    where run: "create_base_map sample_world ''/data/study_area.shp'' main_output_dir
                  = (tr, Inr ax)"
    using study_area_run by blast
  have tr: "ReadFile ''/data/study_area.shp'' \<in> set tr"
    using create_base_map_completed [OF run] by auto
  have dir: "makedirs sample_world main_output_dir = Inr ()"
    by (simp add: sample_world_def)
  from quoted_path_accepted [OF sample_lines(3) [symmetric], of sample_world]
  have "path_exists sample_world ''/data/study_area.shp'' \<and>
        makedirs sample_world main_output_dir = Inr () \<longrightarrow>
        main sample_world (Some ?line) =
          ([Print ''Please enter the path to your shapefile/GeoJSON file:'',
            MakeDirs main_output_dir,
            Print (''Processing shapefile: '' @ ''/data/study_area.shp''),
            Print (''Output will be saved to: '' @ main_output_dir)]
             @ fst (create_base_map sample_world ''/data/study_area.shp'' main_output_dir),
           map_sum id (\<lambda>_. ())
             (snd (create_base_map sample_world ''/data/study_area.shp'' main_output_dir)))"
    by blast
  with sample_paths(2) dir
  have m: "main sample_world (Some ?line) =
          ([Print ''Please enter the path to your shapefile/GeoJSON file:'',
            MakeDirs main_output_dir,
            Print (''Processing shapefile: '' @ ''/data/study_area.shp''),
            Print (''Output will be saved to: '' @ main_output_dir)] @ tr, Inr ())"
    unfolding run by simp
  have "ReadFile ''/data/study_area.shp'' \<in> set (fst (main sample_world (Some ?line)))"
    and "snd (main sample_world (Some ?line)) = Inr ()"
    unfolding m using tr by simp_all
  with sample_lines(3) sample_paths(2) dir show ?thesis
    by blast
qed

section \<open>The title\<close>

lemma uncased_title: "\<not> iscased c \<Longrightarrow> to_title c = [of_char c]"
  by (auto simp: iscased_def to_title_def Let_def)

lemma uncased_lower: "\<not> iscased c \<Longrightarrow> to_lower c = of_char c"
  by (auto simp: iscased_def to_lower_def Let_def)

lemma space_uncased: "\<not> iscased (CHR '' '')" "\<not> iscased (CHR ''_'')"
  by (simp_all add: iscased_def)

lemma space_codepoint: "to_title (CHR '' '') = [32]" "to_lower (CHR '' '') = 32"
  by (simp_all add: to_title_def to_lower_def)

lemma capitalize_simps:
  "capitalize [] = []" "capitalize (c # cs) = to_title c @ map to_lower cs"
  by (simp_all add: capitalize_def)

lemma join_with_append_Cons: "join_with sep ((x @ w) # ws) = x @ join_with sep (w # ws)"
  by (cases ws) auto

lemma cap_from_words:
  "\<exists>w ws. split_on (CHR '' '') s = w # ws \<and>
     cap_from True s = join_with 32 (map to_lower w # map capitalize ws) \<and>
     cap_from False s = join_with 32 (capitalize w # map capitalize ws)"
proof (induction s)
  case Nil
  show ?case by (simp add: capitalize_simps)
next
  case (Cons c cs)
  then obtain w ws where split: "split_on (CHR '' '') cs = w # ws"
    and t: "cap_from True cs = join_with 32 (map to_lower w # map capitalize ws)"
    and f: "cap_from False cs = join_with 32 (capitalize w # map capitalize ws)"
    by blast
  show ?case
  proof (cases "c = CHR '' ''")
    case True
    with split f show ?thesis
      by (simp add: capitalize_simps space_codepoint)
  next
    case False
    have "join_with 32 (map to_lower (c # w) # map capitalize ws)
            = [to_lower c] @ join_with 32 (map to_lower w # map capitalize ws)"
      using join_with_append_Cons [of 32 "[to_lower c]"] by simp
    moreover have "join_with 32 (capitalize (c # w) # map capitalize ws)
            = to_title c @ join_with 32 (map to_lower w # map capitalize ws)"
      by (simp add: capitalize_simps join_with_append_Cons)
    ultimately show ?thesis
      using False split t by simp
  qed
qed

lemma cap_from_spec_title:
  "cap_from False (str_replace (CHR ''_'') (CHR '' '') name) = spec_title name"
  using cap_from_words [of "str_replace (CHR ''_'') (CHR '' '') name"]
  by (auto simp: spec_title_def)

lemma title_from_cap_from:
  "plain_words_from q s \<Longrightarrow>
     title_from (iscased q) (str_replace (CHR ''_'') (CHR '' '') s) =
     cap_from (q \<noteq> CHR '' '' \<and> q \<noteq> CHR ''_'') (str_replace (CHR ''_'') (CHR '' '') s)"
proof (induction s arbitrary: q)
  case Nil
  show ?case by (simp add: str_replace_def)
next
  case (Cons c cs)
  from Cons.prems have ok: "iscased c \<longrightarrow> iscased q \<or> q = CHR '' '' \<or> q = CHR ''_''"
    and rest: "plain_words_from c cs" by simp_all
  define c' where "c' = (if c = CHR ''_'' then CHR '' '' else c)"
  have cased: "iscased c' = iscased c"
    using space_uncased by (simp add: c'_def)
  have word: "(c' \<noteq> CHR '' '') = (c \<noteq> CHR '' '' \<and> c \<noteq> CHR ''_'')"
    by (simp add: c'_def)
  have head: "(if iscased q then [to_lower c'] else to_title c') =
              (if q \<noteq> CHR '' '' \<and> q \<noteq> CHR ''_'' then [to_lower c'] else to_title c')"
  proof (cases "iscased q")
    case True
    then have "q \<noteq> CHR '' ''" "q \<noteq> CHR ''_''" using space_uncased by auto
    with True show ?thesis by simp
  next
    case False
    show ?thesis
    proof (cases "q = CHR '' '' \<or> q = CHR ''_''")
      case True
      with False show ?thesis by auto
    next
      case sym: False
      with False ok have "\<not> iscased c" by blast
      then have "\<not> iscased c'" using cased by simp
      then have "to_title c' = [of_char c']" "to_lower c' = of_char c'"
        by (simp_all add: uncased_title uncased_lower)
      then show ?thesis by simp
    qed
  qed
  have tail: "title_from (iscased c') (str_replace (CHR ''_'') (CHR '' '') cs) =
     cap_from (c' \<noteq> CHR '' '') (str_replace (CHR ''_'') (CHR '' '') cs)"
    using Cons.IH [OF rest] cased word by simp
  have unfold: "str_replace (CHR ''_'') (CHR '' '') (c # cs) =
                c' # str_replace (CHR ''_'') (CHR '' '') cs"
    by (simp add: str_replace_def c'_def)
  show ?case
    unfolding unfold title_from.simps cap_from.simps
    using head tail by simp
qed

lemma title_plain_words:
  "plain_words name \<Longrightarrow> str_title (str_replace (CHR ''_'') (CHR '' '') name) = spec_title name"
  using title_from_cap_from [of "CHR '' ''" name] space_uncased
  by (simp add: plain_words_def str_title_def cap_from_spec_title)

lemmas case_defs = to_title_def to_lower_def iscased_def codepoints_def

lemma zone2b_stem:
  "fst (splitext (basename ''/data/zone2b.geojson'')) = ''zone2b''"
  by (simp add: splitext_def basename_def rfind_def Let_def)

lemma zone2b_titles:
  "str_title (str_replace (CHR ''_'') (CHR '' '') ''zone2b'') = codepoints ''Zone2B''"
  "spec_title ''zone2b'' = codepoints ''Zone2b''"
  by (simp_all add: str_title_def str_replace_def spec_title_def capitalize_def case_defs)

lemma study_area_titles:
  "plain_words ''study_area''"
  "spec_title ''study_area'' = codepoints ''Study Area''"
  by (simp_all add: plain_words_def str_replace_def spec_title_def capitalize_def case_defs)

lemma latin1_titles:
  "str_title (str_replace (CHR ''_'') (CHR '' '') ([CHR 0xE9] @ ''t'' @ [CHR 0xE9] @ ''_zone''))
     = [201, 116, 233, 32, 90, 111, 110, 101]"
  "str_title (''a'' @ [CHR 0xC9]) = [65, 233]"
  "str_title ([CHR 0xDF] @ ''a'') = [83, 115, 97]"
  "str_title ([CHR 0xFF, CHR 0xB5]) = [376, 181]"
  by (simp_all add: str_title_def str_replace_def case_defs)

lemma completed_title:
  assumes "create_base_map world p d = (tr, Inr ax)"
  shows "ax_title ax = str_title (str_replace (CHR ''_'') (CHR '' '') (fst (splitext (basename p))))"
proof -
  from create_base_map_completed [OF assms] obtain ls xl yl bm xt yt xtl ytl g lg ln tx an
    where "ax = \<lparr>layers = ls, xlim = xl, ylim = yl, basemap = bm, xticks = xt, yticks = yt,
                 xticklabels = xtl, yticklabels = ytl, grid = g, legend = lg, lines = ln,
                 texts = tx, annotations = an,
                 ax_title = str_title (str_replace (CHR ''_'') (CHR '' '')
                                         (fst (splitext (basename p)))),
                 xlabel = ''Longitude'', ylabel = ''Latitude''\<rparr>"
    by blast
  then show ?thesis by simp
qed

text \<open>
  C5, as stated, fails: for the file \<open>zone2b.geojson\<close> the title is \<open>Zone2B\<close>, while the
  base name with each word capitalized is \<open>Zone2b\<close>.
\<close>

theorem title_each_word_counterexample:
  "map_sum id ax_title (snd (create_base_map sample_world ''/data/zone2b.geojson'' ''out''))
     = Inr (codepoints ''Zone2B'') \<and>
   spec_title (fst (splitext (basename ''/data/zone2b.geojson''))) = codepoints ''Zone2b'' \<and>
   map_sum id ax_title (snd (create_base_map sample_world ''/data/zone2b.geojson'' ''out''))
     \<noteq> Inr (spec_title (fst (splitext (basename ''/data/zone2b.geojson''))))"
proof -
  obtain tr ax
    where run: "create_base_map sample_world ''/data/zone2b.geojson'' ''out'' = (tr, Inr ax)"
    using zone2b_run by blast
  have "ax_title ax = codepoints ''Zone2B''"
    using completed_title [OF run] by (simp only: zone2b_stem zone2b_titles)
  then show ?thesis
    unfolding run zone2b_stem zone2b_titles by (simp add: codepoints_def)
qed

text \<open>
  C5, amended. The title is the base name (extension removed) with every underscore
  replaced by a space and then title-cased as \<open>str.title\<close> does it: a letter that
  follows a letter becomes lower case, every other letter is put in title case. This is
  the base name with underscores replaced by spaces and each word capitalized whenever
  the base name has plain words, that is, each of its letters comes first or follows a
  letter, an underscore or a space.
\<close>

theorem map_title_title_case:
  assumes "create_base_map world p d = (tr, Inr ax)"
  shows "ax_title ax =
           str_title (str_replace (CHR ''_'') (CHR '' '') (fst (splitext (basename p)))) \<and>
         (plain_words (fst (splitext (basename p))) \<longrightarrow>
            ax_title ax = spec_title (fst (splitext (basename p))))"
  using completed_title [OF assms] title_plain_words [of "fst (splitext (basename p))"]
  by simp

theorem map_title_title_case_witness:
  "\<exists>tr ax. create_base_map sample_world ''/data/study_area.shp'' ''out'' = (tr, Inr ax) \<and>
     fst (splitext (basename ''/data/study_area.shp'')) = ''study_area'' \<and>
     plain_words ''study_area'' \<and>
     ax_title ax = codepoints ''Study Area'' \<and>
     spec_title ''study_area'' = codepoints ''Study Area''"
proof -
  obtain tr ax
    where run: "create_base_map sample_world ''/data/study_area.shp'' ''out'' = (tr, Inr ax)"
    using study_area_run by blast
  have stem: "fst (splitext (basename ''/data/study_area.shp'')) = ''study_area''"
    by (simp add: study_area_output_path(2))
  from map_title_title_case [OF run]
  have "plain_words ''study_area'' \<longrightarrow> ax_title ax = spec_title ''study_area''"
    unfolding stem by blast
  then have "ax_title ax = codepoints ''Study Area''"
    using study_area_titles by simp
  with run stem study_area_titles show ?thesis
    by blast
qed

section \<open>Assigning the reference system\<close>









end
